theory Spec2Isabelle
  imports Complex_Main "HOL-Library.Char_ord" "HOL-Library.List_Lexorder" "HOL-Library.Multiset"
begin

section \<open>JavaScript values\<close>

text \<open>
  A JavaScript number is a finite value, one of the two infinities or NaN. Finite values
  are kept exact (a rational); the code under study only tests numbers for finiteness,
  compares them for equality, orders them and prints them. Minus zero is identified with
  zero: none of those operations tells them apart (\<open>Set.has\<close> uses SameValueZero,
  \<open>String(-0)\<close> is \<open>"0"\<close>).
\<close>

datatype jsnum = NaN | PosInf | NegInf | Fin rat

text \<open>The result of \<open>JSON.parse\<close>. An object keeps its members in source order.\<close>

datatype json =
    JNull
  | JBool bool
  | JNum jsnum
  | JStr string
  | JArr "json list"
  | JObj "(string \<times> json) list"

text \<open>A JavaScript value that came out of JSON, or \<open>undefined\<close> (\<open>None\<close>).\<close>

type_synonym jsval = "json option"

text \<open>
  The two conversions between strings and numbers belong to the language runtime, not to
  the repository: \<open>StringToNumber\<close> is what \<open>Number(s)\<close> does on a string and
  \<open>NumberToString\<close> what \<open>String(n)\<close> does on a number. Every definition below
  takes them as a parameter, so that every theorem holds for the runtime's own functions.
\<close>

record js_runtime =
  StringToNumber :: "string \<Rightarrow> jsnum"
  NumberToString :: "jsnum \<Rightarrow> string"

definition isFinite :: "jsnum \<Rightarrow> bool" where
  \<comment> \<open>\<open>Number.isFinite\<close>\<close>
  "isFinite n = (case n of Fin _ \<Rightarrow> True | _ \<Rightarrow> False)"

definition isNaN :: "jsnum \<Rightarrow> bool" where
  \<comment> \<open>\<open>Number.isNaN\<close>\<close>
  "isNaN n = (n = NaN)"

fun join_comma :: "string list \<Rightarrow> string" where
  "join_comma [] = []"
| "join_comma [s] = s"
| "join_comma (s # t # ss) = s @ '','' @ join_comma (t # ss)"

text \<open>
  \<open>String(v)\<close> on a JSON value; an array prints its elements joined by commas, with
  \<open>null\<close> elements printed as the empty string.

  In JavaScript the conversion of an object goes through its \<open>toString\<close> member. A
  parsed object that has a member of that name of its own (never a function) makes
  \<open>String(v)\<close> and \<open>Number(v)\<close> throw a TypeError, and so does an array that holds
  such an object. \<open>converts v\<close> says that \<open>v\<close> is not of that kind. \<open>ToString\<close> and
  \<open>Number_v\<close> give the result of the conversion for the values that convert; the values
  that the code under study converts are declared strings and numbers.
\<close>

fun converts :: "json \<Rightarrow> bool" where
  "converts (JArr xs) = (\<forall>x \<in> set xs. converts x)"
| "converts (JObj kvs) = (''toString'' \<notin> fst ` set kvs)"
| "converts v = True"

fun ToString :: "js_runtime \<Rightarrow> json \<Rightarrow> string" where
  "ToString js JNull = ''null''"
| "ToString js (JBool b) = (if b then ''true'' else ''false'')"
| "ToString js (JNum n) = NumberToString js n"
| "ToString js (JStr s) = s"
| "ToString js (JArr xs) =
     join_comma (map (\<lambda>x. if x = JNull then [] else ToString js x) xs)"
| "ToString js (JObj kvs) = ''[object Object]''"

definition String_v :: "js_runtime \<Rightarrow> jsval \<Rightarrow> string" where
  \<comment> \<open>\<open>String(v)\<close>, with \<open>undefined\<close>\<close>
  "String_v js v = (case v of None \<Rightarrow> ''undefined'' | Some x \<Rightarrow> ToString js x)"

definition Number_v :: "js_runtime \<Rightarrow> jsval \<Rightarrow> jsnum" where
  \<comment> \<open>\<open>Number(v)\<close>\<close>
  "Number_v js v =
     (case v of
        None \<Rightarrow> NaN
      | Some JNull \<Rightarrow> Fin 0
      | Some (JBool b) \<Rightarrow> Fin (if b then 1 else 0)
      | Some (JNum n) \<Rightarrow> n
      | Some (JStr s) \<Rightarrow> StringToNumber js s
      | Some x \<Rightarrow> StringToNumber js (ToString js x))"

definition falsy :: "jsval \<Rightarrow> bool" where
  \<comment> \<open>\<open>!v\<close>\<close>
  "falsy v =
     (case v of
        None \<Rightarrow> True
      | Some JNull \<Rightarrow> True
      | Some (JBool b) \<Rightarrow> \<not> b
      | Some (JNum n) \<Rightarrow> n = NaN \<or> n = Fin 0
      | Some (JStr s) \<Rightarrow> s = []
      | Some _ \<Rightarrow> False)"

definition nullish :: "jsval \<Rightarrow> jsval \<Rightarrow> jsval" where
  \<comment> \<open>\<open>a ?? b\<close>\<close>
  "nullish a b = (case a of None \<Rightarrow> b | Some JNull \<Rightarrow> b | _ \<Rightarrow> a)"

definition lookup_last :: "(string \<times> 'a) list \<Rightarrow> string \<Rightarrow> 'a option" where
  \<comment> \<open>a member that is repeated in the JSON text keeps its last value\<close>
  "lookup_last kvs k = map_of (rev kvs) k"

definition js_prop :: "json \<Rightarrow> string \<Rightarrow> jsval" where
  \<comment> \<open>\<open>v.k\<close> for a member name \<open>k\<close> that no array, string, number or boolean has\<close>
  "js_prop v k = (case v of JObj kvs \<Rightarrow> lookup_last kvs k | _ \<Rightarrow> None)"

text \<open>
  A JavaScript string is a sequence of UTF-16 units; here a string is kept as the UTF-8
  bytes of its text. \<open>utf16_units\<close> gives the units of a string, each as a string of its
  own: a character outside the basic plane (four bytes) is two units, its surrogates,
  written in the same three-byte form as the other units.
\<close>

definition utf8_width :: "char \<Rightarrow> nat" where
  \<comment> \<open>the number of bytes of the character that starts with this byte\<close>
  "utf8_width c =
     (let b = of_char c :: nat in
      if b < 192 then 1 else if b < 224 then 2 else if b < 240 then 3 else 4)"

fun code_points :: "string \<Rightarrow> string list" where
  "code_points [] = []"
| "code_points (c # cs) =
     (c # take (utf8_width c - 1) cs) # code_points (drop (utf8_width c - 1) cs)"

definition unit3 :: "nat \<Rightarrow> string" where
  "unit3 u =
     [char_of (224 + u div 4096), char_of (128 + (u div 64) mod 64), char_of (128 + u mod 64)]"

definition units_of_point :: "string \<Rightarrow> string list" where
  "units_of_point g =
     (case g of
        [b0, b1, b2, b3] \<Rightarrow>
          (let cp = (of_char b0 mod 8) * 262144 + (of_char b1 mod 64) * 4096
                      + (of_char b2 mod 64) * 64 + (of_char b3 mod 64 :: nat);
               v = cp - 65536
           in [unit3 (55296 + v div 1024), unit3 (56320 + v mod 1024)])
      | _ \<Rightarrow> [g])"

definition utf16_units :: "string \<Rightarrow> string list" where
  "utf16_units s = concat (map units_of_point (code_points s))"

definition js_length :: "json \<Rightarrow> jsval" where
  \<comment> \<open>\<open>v.length\<close>\<close>
  "js_length v =
     (case v of
        JArr xs \<Rightarrow> Some (JNum (Fin (of_nat (length xs))))
      | JStr s \<Rightarrow> Some (JNum (Fin (of_nat (length (utf16_units s)))))
      | JObj kvs \<Rightarrow> lookup_last kvs ''length''
      | _ \<Rightarrow> None)"

definition lt_num :: "jsnum \<Rightarrow> jsnum \<Rightarrow> bool" where
  \<comment> \<open>\<open>a < b\<close> on numbers: false when either side is NaN\<close>
  "lt_num a b =
     (case (a, b) of
        (NaN, _) \<Rightarrow> False
      | (_, NaN) \<Rightarrow> False
      | (PosInf, _) \<Rightarrow> False
      | (_, NegInf) \<Rightarrow> False
      | (NegInf, _) \<Rightarrow> True
      | (_, PosInf) \<Rightarrow> True
      | (Fin x, Fin y) \<Rightarrow> x < y)"

definition js_index :: "json \<Rightarrow> nat \<Rightarrow> string \<Rightarrow> jsval" where
  \<comment> \<open>\<open>v[i]\<close>; the third argument is the index written as a member name\<close>
  "js_index v i k =
     (case v of
        JArr xs \<Rightarrow> (if i < length xs then Some (xs ! i) else None)
      | JStr s \<Rightarrow>
          (if i < length (utf16_units s) then Some (JStr (utf16_units s ! i)) else None)
      | JObj kvs \<Rightarrow> lookup_last kvs k
      | _ \<Rightarrow> None)"

section \<open>Persistence gateway (server.js)\<close>

text \<open>
  A row of the table \<open>alerts\<close> holds the four values bound to the placeholders of the
  INSERT statement. The table's column types are not part of the repository, so the order
  that \<open>ORDER BY event_time\<close> uses is a parameter: a key function into a linear order.
\<close>

record alert_row =
  device_id :: jsval
  event_time :: jsval
  detected_object :: jsval
  base64_image :: jsval

type_synonym alerts_table = "alert_row list"

datatype response_body =
    Message string
  | Error string
  | Rows "alert_row list"

datatype http_response = Response nat response_body

text \<open>
  \<open>app.post('/api/save-alert')\<close>. The flag \<open>db_ok\<close> says whether \<open>pool.query\<close>
  resolves (the row is stored) or rejects (nothing is stored, the handler answers 500).
  An absent \<open>recent_obj\<close> is \<open>undefined\<close>, which is falsy.
\<close>

definition save_alert ::
  "js_runtime \<Rightarrow> bool \<Rightarrow> json \<Rightarrow> alerts_table \<Rightarrow> http_response \<times> alerts_table" where
  "save_alert js db_ok body tbl =
     (let id = js_prop body ''id''; recent_obj = js_prop body ''recent_obj'' in
      case recent_obj of
        None \<Rightarrow> (Response 400 (Message ''Invalid payload structure.''), tbl)
      | Some ro \<Rightarrow>
          if falsy (Some ro) \<or> lt_num (Number_v js (js_length ro)) (Fin 3)
          then (Response 400 (Message ''Invalid payload structure.''), tbl)
          else
            let event_time = js_index ro 0 ''0'';
                detected_object = js_index ro 1 ''1'';
                base64_image = js_index ro 2 ''2'';
                row = \<lparr>device_id = id, event_time = event_time,
                       detected_object = detected_object, base64_image = base64_image\<rparr>
            in if db_ok
               then (Response 200 (Message ''Alert saved successfully.''), tbl @ [row])
               else (Response 500 (Error ''Failed to save alert.''), tbl))"

text \<open>
  The query of the second endpoint. \<open>WHERE device_id = $1\<close> keeps the rows whose stored
  id is the number bound to \<open>$1\<close>. Rows with equal event times come out in their table
  order here; the store may order them otherwise.
\<close>

fun insert_desc :: "('a \<Rightarrow> 'k::linorder) \<Rightarrow> 'a \<Rightarrow> 'a list \<Rightarrow> 'a list" where
  "insert_desc k x [] = [x]"
| "insert_desc k x (y # ys) =
     (if k y < k x then x # y # ys else y # insert_desc k x ys)"

definition order_by_desc :: "('a \<Rightarrow> 'k::linorder) \<Rightarrow> 'a list \<Rightarrow> 'a list" where
  \<comment> \<open>\<open>ORDER BY ... DESC\<close>\<close>
  "order_by_desc k xs = fold (insert_desc k) xs []"

definition select_recent ::
  "(jsval \<Rightarrow> 'k::linorder) \<Rightarrow> jsnum \<Rightarrow> alerts_table \<Rightarrow> alert_row list" where
  \<comment> \<open>\<open>SELECT ... WHERE device_id = $1 ORDER BY event_time DESC LIMIT 10\<close>\<close>
  "select_recent tkey deviceId tbl =
     take 10 (order_by_desc (\<lambda>r. tkey (event_time r))
                (filter (\<lambda>r. device_id r = Some (JNum deviceId)) tbl))"

text \<open>
  \<open>app.get('/api/alerts/recent')\<close>; \<open>q\<close> is \<open>req.query.device_id\<close>.
\<close>

definition get_recent_alerts ::
  "js_runtime \<Rightarrow> bool \<Rightarrow> (jsval \<Rightarrow> 'k::linorder) \<Rightarrow> jsval \<Rightarrow> alerts_table
     \<Rightarrow> http_response \<times> alerts_table" where
  "get_recent_alerts js db_ok tkey q tbl =
     (let deviceId = Number_v js q in
      if \<not> isFinite deviceId
      then (Response 400 (Error ''device_id is required''), tbl)
      else if db_ok
           then (Response 200 (Rows (select_recent tkey deviceId tbl)), tbl)
           else (Response 500 (Error ''Failed to retrieve alerts.''), tbl))"

section \<open>Shared client code\<close>

text \<open>
  The status labels are Korean words; a string is kept as its UTF-8 bytes.
\<close>

definition label_normal :: string where
  \<comment> \<open>the label for a working device\<close>
  "label_normal = [CHR 0xEC, CHR 0xA0, CHR 0x95, CHR 0xEC, CHR 0x83, CHR 0x81]"

definition label_broken :: string where
  \<comment> \<open>the label for a broken device\<close>
  "label_broken = [CHR 0xEA, CHR 0xB3, CHR 0xA0, CHR 0xEC, CHR 0x9E, CHR 0xA5]"

definition label_off :: string where
  \<comment> \<open>the label for a device that is switched off\<close>
  "label_off = [CHR 0xEA, CHR 0xBA, CHR 0xBC, CHR 0xEC, CHR 0xA7, CHR 0x90]"

definition stake_suffix :: string where
  \<comment> \<open>what follows the number in a device's display name\<close>
  "stake_suffix = [CHR 0xEB, CHR 0xB2, CHR 0x88, CHR 0x20, CHR 0xEB, CHR 0xA7, CHR 0x90,
                   CHR 0xEB, CHR 0x9A, CHR 0x9D]"

definition mapStatus :: "jsval \<Rightarrow> string \<times> string" where
  \<comment> \<open>the same function in P1.tsx and P2.tsx: (status, dot)\<close>
  "mapStatus s =
     (if s = Some (JStr ''GOOD'') then (label_normal, ''green'')
      else if s = Some (JStr ''BAD'') then (label_broken, ''red'')
      else (label_off, ''gray''))"

text \<open>The clock, as \<open>new Date()\<close> reads it when a handler runs.\<close>

record js_date =
  getHours :: nat
  getMinutes :: nat
  getSeconds :: nat
  toLocaleTimeString :: string

definition padStart2 :: "string \<Rightarrow> string" where
  \<comment> \<open>\<open>s.padStart(2, "0")\<close>\<close>
  "padStart2 s = replicate (2 - length (utf16_units s)) (CHR ''0'') @ s"

definition nowHHMMSS :: "js_runtime \<Rightarrow> js_date \<Rightarrow> string" where
  "nowHHMMSS js d =
     (let hh = padStart2 (NumberToString js (Fin (of_nat (getHours d))));
          mm = padStart2 (NumberToString js (Fin (of_nat (getMinutes d))));
          ss = padStart2 (NumberToString js (Fin (of_nat (getSeconds d))))
      in hh @ '':'' @ mm @ '':'' @ ss)"

section \<open>Device list view (P1.tsx)\<close>

record list_item =
  li_id :: jsnum
  li_name :: string
  li_status :: string
  li_statusDot :: string
  li_battery :: string
  li_lat :: "jsnum option"
  li_lng :: "jsnum option"

datatype permission = Granted | Denied | Default

datatype p1_effect =
    Warn_invalid_id
  | Error_notify_parse
  | Toast_new_device jsnum string string string
  | New_notification jsnum
  | Request_permission
  | Toast_success jsnum

text \<open>
  The button of the new-device toast: \<open>setItems((prev) => [...prev, {...}])\<close>, with the
  id, status, dot and battery the toast was raised with.
\<close>

definition add_device ::
  "js_runtime \<Rightarrow> jsnum \<Rightarrow> string \<Rightarrow> string \<Rightarrow> string \<Rightarrow> list_item list \<Rightarrow> list_item list" where
  "add_device js idx status dot battery prev =
     prev @ [\<lparr>li_id = idx,
              li_name = NumberToString js (Fin (of_nat (length prev + 1))) @ stake_suffix,
              li_status = status, li_statusDot = dot, li_battery = battery,
              li_lat = None, li_lng = None\<rparr>]"

text \<open>
  \<open>client.on("message")\<close> of P1. The payload is given as what \<open>JSON.parse\<close> makes
  of it (\<open>None\<close> when it throws). Reading \<open>m.status\<close> of \<open>null\<close> throws as well;
  both land in the handler's \<open>catch\<close>.
\<close>

definition P1_on_message ::
  "js_runtime \<Rightarrow> permission \<Rightarrow> string \<Rightarrow> json option \<Rightarrow> list_item list
     \<Rightarrow> list_item list \<times> p1_effect list" where
  "P1_on_message js perm topic payload items =
     (if topic \<noteq> ''Notify'' then (items, [])
      else case payload of
        None \<Rightarrow> (items, [Error_notify_parse])
      | Some JNull \<Rightarrow> (items, [Error_notify_parse])
      | Some m \<Rightarrow>
          (case mapStatus (js_prop m ''status'') of (status, dot) \<Rightarrow>
           let idx = Number_v js (nullish (js_prop m ''idx'') (js_prop m ''id''));
               cmd = js_prop m ''cmd'' in
           if isNaN idx then (items, [Warn_invalid_id])
           else if cmd = Some (JStr ''new_device'') then
             (if list_ex (\<lambda>it. li_id it = idx) items then (items, [])
              else (items, [Toast_new_device idx status dot
                      (String_v js (nullish (js_prop m ''battery'') (Some (JStr []))))]))
           else if cmd = Some (JStr ''status_update'') then
             (map (\<lambda>it. if li_id it = idx
                         then it\<lparr>li_status := status, li_statusDot := dot\<rparr> else it) items,
              [])
           else if cmd = Some (JStr ''alert'') then
             (items,
              (if perm = Granted then [New_notification idx]
               else if perm \<noteq> Denied then [Request_permission] else [])
              @ [Toast_success idx])
           else (items, [])))"

section \<open>Map view (P2.tsx)\<close>

text \<open>
  A device record of the broker's table. The type declares every field a string; at run
  time a field holds whatever JSON value the broker sent, or is absent, and the code
  converts it where it reads it (\<open>Number(d.lat)\<close>, \<open>String(d.battery ?? "")\<close>,
  \<open>Array.isArray(d.recent_obj)\<close>).
\<close>

record RawDevice =
  rd_battery :: jsval
  rd_temp :: jsval
  rd_humi :: jsval
  rd_status :: jsval
  rd_lat :: jsval
  rd_lng :: jsval
  rd_recent_obj :: jsval

text \<open>
  An entry of the table is declared a device record. The cast of the parsed table checks
  nothing, so at run time an entry may also be a value that is no object (\<open>null\<close>, a
  boolean, a number, a string): it has none of the fields, and the alert update tests it
  for truth.
\<close>

datatype raw_entry = Device RawDevice | Primitive json

text \<open>
  The table, as the list of its entries in the order in which \<open>Object.keys\<close> lists
  them. A key occurs once.
\<close>

type_synonym RawDeviceMap = "(string \<times> raw_entry) list"

definition no_fields :: RawDevice where
  \<comment> \<open>an object with none of the declared fields\<close>
  "no_fields =
     \<lparr>rd_battery = None, rd_temp = None, rd_humi = None, rd_status = None,
      rd_lat = None, rd_lng = None, rd_recent_obj = None\<rparr>"

definition fallback_device :: "string \<Rightarrow> string \<Rightarrow> string \<Rightarrow> string \<Rightarrow> string \<Rightarrow> raw_entry" where
  \<comment> \<open>an entry of \<open>FALLBACK_RAW\<close>: they share temp, humi, and the time and target of
      \<open>recent_obj\<close>\<close>
  "fallback_device battery status lat lng url =
     Device \<lparr>rd_battery = Some (JStr battery), rd_temp = Some (JStr ''24.6''),
      rd_humi = Some (JStr ''70''), rd_status = Some (JStr status),
      rd_lat = Some (JStr lat), rd_lng = Some (JStr lng),
      rd_recent_obj = Some (JArr [JStr ''2025-05-01T23:21:52'', JStr ''hog'', JStr url])\<rparr>"

definition FALLBACK_RAW :: RawDeviceMap where
  "FALLBACK_RAW =
     [(''1'', fallback_device ''40'' ''GOOD'' ''37.868770'' ''127.738360''
         ''https://m.health.chosun.com/site/data/img_dir/2022/05/24/2022052402229_0.jpg''),
      (''2'', fallback_device ''40'' ''BAD'' ''37.869436'' ''127.742939''
         ''https://thumb.mt.co.kr/06/2024/02/2024021621113371189_1.jpg/dims/optimize/''),
      (''3'', fallback_device ''40'' ''OFF'' ''37.869562'' ''127.742999''
         ''https://newsimg.hankookilbo.com/2020/04/24/202004241244319174_1.jpg''),
      (''4'', fallback_device ''20'' ''BAD'' ''37.869501'' ''127.743001''
         ''https://newsimg.hankookilbo.com/2020/04/24/202004241244319174_1.jpg'')]"

definition USER_UUID :: string where
  "USER_UUID = ''AA-BB-CC-DD-EE-FF''"

record recent_info =
  r_time :: string
  r_target :: string
  r_image :: string

record Item =
  it_id :: jsnum
  it_name :: string
  it_status :: string
  it_statusDot :: string
  it_battery :: string
  it_lat :: jsnum
  it_lng :: jsnum
  it_recent :: "recent_info option"

subsection \<open>The items of the map\<close>

text \<open>
  What the code reads of an entry: the declared fields. An entry that is no object has none
  of them (\<open>d.lat\<close> is \<open>undefined\<close>). Of the values that are no object, \<open>null\<close>
  alone has no members at all and the source throws when it reads \<open>d.lat\<close> of it; the
  declared type of the table excludes that entry, and here it reads like the others.
\<close>

definition entry_fields :: "raw_entry \<Rightarrow> RawDevice" where
  "entry_fields e = (case e of Device d \<Rightarrow> d | Primitive v \<Rightarrow> no_fields)"

text \<open>One round of the loop over \<open>Object.keys(rawMap)\<close>; \<open>None\<close> is \<open>continue\<close>.\<close>

definition item_of :: "js_runtime \<Rightarrow> jsnum set \<Rightarrow> string \<times> raw_entry \<Rightarrow> Item option" where
  "item_of js idSet kd =
     (case kd of (key, e) \<Rightarrow>
      let numId = StringToNumber js key in
      if numId \<notin> idSet then None
      else
        let d = entry_fields e;
            lat = Number_v js (rd_lat d); lng = Number_v js (rd_lng d) in
        if \<not> isFinite lat \<or> \<not> isFinite lng then None
        else case mapStatus (rd_status d) of (status, dot) \<Rightarrow>
          let recent =
                (case rd_recent_obj d of
                   Some (JArr xs) \<Rightarrow>
                     if 3 \<le> length xs
                     then Some \<lparr>r_time = ToString js (xs ! 0), r_target = ToString js (xs ! 1),
                                 r_image = ToString js (xs ! 2)\<rparr>
                     else None
                 | _ \<Rightarrow> None)
          in Some \<lparr>it_id = numId, it_name = NumberToString js numId @ stake_suffix,
                    it_status = status, it_statusDot = dot,
                    it_battery = String_v js (nullish (rd_battery d) (Some (JStr []))),
                    it_lat = lat, it_lng = lng, it_recent = recent\<rparr>)"

definition minus_sign :: "jsnum \<Rightarrow> jsnum \<Rightarrow> int" where
  \<comment> \<open>the sign of \<open>a - b\<close>; a NaN difference counts as 0 in a sort comparator\<close>
  "minus_sign a b =
     (case (a, b) of
        (Fin x, Fin y) \<Rightarrow> (if x < y then - 1 else if y < x then 1 else 0)
      | (Fin _, PosInf) \<Rightarrow> - 1
      | (Fin _, NegInf) \<Rightarrow> 1
      | (PosInf, Fin _) \<Rightarrow> 1
      | (NegInf, Fin _) \<Rightarrow> - 1
      | (PosInf, NegInf) \<Rightarrow> 1
      | (NegInf, PosInf) \<Rightarrow> - 1
      | _ \<Rightarrow> 0)"

fun insert_by_id :: "Item \<Rightarrow> Item list \<Rightarrow> Item list" where
  "insert_by_id x [] = [x]"
| "insert_by_id x (y # ys) =
     (if minus_sign (it_id x) (it_id y) \<le> 0 then x # y # ys else y # insert_by_id x ys)"

definition sort_by_id :: "Item list \<Rightarrow> Item list" where
  \<comment> \<open>\<open>out.sort((a, b) => a.id - b.id)\<close>: the sort is stable\<close>
  "sort_by_id xs = foldr insert_by_id xs []"

definition items :: "js_runtime \<Rightarrow> RawDeviceMap \<Rightarrow> jsnum set \<Rightarrow> Item list" where
  "items js rawMap idSet = sort_by_id (List.map_filter (item_of js idSet) rawMap)"

definition idSet :: "jsnum list \<Rightarrow> jsnum set" where
  \<comment> \<open>\<open>new Set(ids.map(Number))\<close>, for the numbers \<open>ids\<close>\<close>
  "idSet ids = set ids"

subsection \<open>State and effects\<close>

text \<open>
  The state of the component that the broker session reads and writes, and the variables
  of the session's effect: whether \<open>clientRef.current\<close> holds a client, \<open>didConnect\<close>,
  whether the fallback timer is pending, and the \<open>rawMap\<close> that the closures of the
  effect captured when it ran.

  The effect runs again when the user's list \<open>ids\<close> changes: its cleanup ends the client
  and a new client is made. The handlers of an ended client stay registered on it, with
  the \<open>didConnect\<close> and the \<open>rawMap\<close> of their own closure, and its close event
  still arrives: \<open>ended\<close> lists those pairs for the ended clients whose close event is
  still to come. \<open>alive\<close> says that the component is mounted; React drops the state
  updates of a component that is not.
\<close>

record p2_state =
  rawMap :: RawDeviceMap
  alertedIds :: "jsnum set"
  connected :: bool
  currentId :: "jsnum option"
  clientRef :: bool
  didConnect :: bool
  fallbackTimer :: bool
  rawMap_seen :: RawDeviceMap
  ended :: "(bool \<times> RawDeviceMap) list"
  alive :: bool

datatype p2_effect =
    Mqtt_connect
  | Subscribe "string list"
  | Publish string json
  | Post_save_alert json
  | Toast_intrusion string string
  | Console string
  | Client_end

definition initial_state :: p2_state where
  "initial_state =
     \<lparr>rawMap = [], alertedIds = {}, connected = False, currentId = None,
      clientRef = False, didConnect = False, fallbackTimer = False, rawMap_seen = [],
      ended = [], alive = True\<rparr>"

text \<open>The effect that opens the session; \<open>ids\<close> is the user's device list.\<close>

definition mount :: "jsnum list \<Rightarrow> p2_state \<Rightarrow> p2_state \<times> p2_effect list" where
  "mount ids s =
     (if ids = [] then (s\<lparr>rawMap := []\<rparr>, [])
      else (s\<lparr>clientRef := True, didConnect := False, fallbackTimer := True,
              rawMap_seen := rawMap s\<rparr>, [Mqtt_connect]))"

definition on_fallback_timer :: "p2_state \<Rightarrow> p2_state \<times> p2_effect list" where
  \<comment> \<open>the callback of \<open>fallbackTimer\<close>\<close>
  "on_fallback_timer s =
     (if \<not> didConnect s
      then (s\<lparr>connected := False, rawMap := FALLBACK_RAW, fallbackTimer := False\<rparr>,
            [Console ''MQTT connect timeout: using FALLBACK_RAW''])
      else (s\<lparr>fallbackTimer := False\<rparr>, []))"

definition on_connect :: "js_runtime \<Rightarrow> js_date \<Rightarrow> p2_state \<Rightarrow> p2_state \<times> p2_effect list" where
  "on_connect js now s =
     (s\<lparr>didConnect := True, fallbackTimer := False, connected := True\<rparr>,
      [Subscribe [''Response/#'', ''Notify''],
       Publish ''GET/device''
         (JObj [(''id'', JStr ''AA:BB:CC:11:22:33''), (''timestamp'', JStr (nowHHMMSS js now))])])"

subsection \<open>Messages\<close>

text \<open>
  The keys of a parsed object as \<open>Object.keys\<close> lists them: first the keys that are
  array indices (the canonical texts of the integers from 0 to \<open>2^32 - 2\<close>) in ascending
  order, then the other keys in the order of the text. A name that is repeated in the text
  keeps its first place and its last value.
\<close>

definition array_index :: "js_runtime \<Rightarrow> string \<Rightarrow> nat option" where
  "array_index js k =
     (case StringToNumber js k of
        Fin q \<Rightarrow>
          if 0 \<le> q \<and> q < 4294967295 \<and> q = of_int \<lfloor>q\<rfloor> \<and> NumberToString js (Fin q) = k
          then Some (nat \<lfloor>q\<rfloor>) else None
      | _ \<Rightarrow> None)"

definition own_keys :: "js_runtime \<Rightarrow> string list \<Rightarrow> string list" where
  "own_keys js ks =
     (let ds = rev (remdups (rev ks)) in
      sort_key (\<lambda>k. case array_index js k of Some i \<Rightarrow> i | None \<Rightarrow> 0)
        (filter (\<lambda>k. array_index js k \<noteq> None) ds)
      @ filter (\<lambda>k. array_index js k = None) ds)"

definition own_entries :: "js_runtime \<Rightarrow> (string \<times> 'a) list \<Rightarrow> (string \<times> 'a) list" where
  "own_entries js kvs =
     List.map_filter (\<lambda>k. map_option (Pair k) (lookup_last kvs k)) (own_keys js (map fst kvs))"

definition as_RawDevice :: "json \<Rightarrow> RawDevice" where
  \<comment> \<open>an object read at the type \<open>RawDevice\<close>\<close>
  "as_RawDevice v =
     \<lparr>rd_battery = js_prop v ''battery'', rd_temp = js_prop v ''temp'',
      rd_humi = js_prop v ''humi'', rd_status = js_prop v ''status'',
      rd_lat = js_prop v ''lat'', rd_lng = js_prop v ''lng'',
      rd_recent_obj = js_prop v ''recent_obj''\<rparr>"

definition as_raw_entry :: "json \<Rightarrow> raw_entry" where
  \<comment> \<open>an entry of the parsed table; an array is an object with none of the fields\<close>
  "as_raw_entry v =
     (case v of
        JObj kvs \<Rightarrow> Device (as_RawDevice v)
      | JArr xs \<Rightarrow> Device no_fields
      | _ \<Rightarrow> Primitive v)"

text \<open>
  \<open>JSON.parse(text) as RawDeviceMap\<close>, for a value that passes
  \<open>parsed && typeof parsed === "object"\<close>: an object or an array (whose keys are its
  indices). Every other value gives \<open>None\<close>. An entry that is an object is read at the
  declared type field by field; the members that the type does not declare are not kept,
  no code reads them.
\<close>

definition as_RawDeviceMap :: "js_runtime \<Rightarrow> json \<Rightarrow> RawDeviceMap option" where
  "as_RawDeviceMap js v =
     (case v of
        JObj kvs \<Rightarrow> Some (map (\<lambda>(k, d). (k, as_raw_entry d)) (own_entries js kvs))
      | JArr xs \<Rightarrow>
          Some (map (\<lambda>i. (NumberToString js (Fin (of_nat i)), as_raw_entry (xs ! i)))
                  [0..<length xs])
      | _ \<Rightarrow> None)"

fun set_entry :: "string \<Rightarrow> 'a \<Rightarrow> (string \<times> 'a) list \<Rightarrow> (string \<times> 'a) list" where
  \<comment> \<open>\<open>{ ...prev, [key]: v }\<close> for a key that \<open>prev\<close> has: the key keeps its place\<close>
  "set_entry k v [] = [(k, v)]"
| "set_entry k v ((k', v') # kvs) =
     (if k' = k then (k, v) # kvs else (k', v') # set_entry k v kvs)"

definition startsWith :: "string \<Rightarrow> string \<Rightarrow> bool" where
  "startsWith s p = (take (length p) s = p)"

definition toLowerCase :: "string \<Rightarrow> string" where
  \<comment> \<open>on the ASCII letters; the source compares the result with \<open>"notify"\<close>, and no other
      character lowers to one of its letters\<close>
  "toLowerCase s =
     map (\<lambda>c. let n = of_char c :: nat in if 65 \<le> n \<and> n \<le> 90 then char_of (n + 32) else c) s"

definition recentArr_of :: "js_runtime \<Rightarrow> jsval \<Rightarrow> (string \<times> string \<times> string) option" where
  \<comment> \<open>the tuple \<open>recentArr\<close>, or \<open>undefined\<close>\<close>
  "recentArr_of js recent_obj =
     (case recent_obj of
        Some (JArr xs) \<Rightarrow>
          if 3 \<le> length xs
          then Some (ToString js (xs ! 0), ToString js (xs ! 1), ToString js (xs ! 2))
          else None
      | _ \<Rightarrow> None)"

definition recent_json :: "string \<times> string \<times> string \<Rightarrow> json" where
  "recent_json r = (case r of (a, b, c) \<Rightarrow> JArr [JStr a, JStr b, JStr c])"

text \<open>
  The updater passed to \<open>setRawMap\<close> in the alert branch: \<open>cur = prev[key]\<close>,
  \<open>if (!cur) return prev\<close>, else \<open>{ ...prev, [key]: { ...cur, recent_obj: recentArr } }\<close>.
  An absent key and an entry that is falsy leave the table as it is. An entry that is
  truthy and no object (a number, \<open>true\<close>, a string) spreads to an object with none of
  the declared fields.
\<close>

definition set_recent :: "string \<Rightarrow> string \<times> string \<times> string \<Rightarrow> RawDeviceMap \<Rightarrow> RawDeviceMap" where
  "set_recent key recentArr prev =
     (case map_of prev key of
        None \<Rightarrow> prev
      | Some (Primitive v) \<Rightarrow>
          if falsy (Some v) then prev
          else set_entry key (Device (no_fields\<lparr>rd_recent_obj := Some (recent_json recentArr)\<rparr>))
                 prev
      | Some (Device cur) \<Rightarrow>
          set_entry key (Device (cur\<lparr>rd_recent_obj := Some (recent_json recentArr)\<rparr>)) prev)"

text \<open>
  \<open>client.on("message")\<close> of P2. The payload is given as what \<open>JSON.parse\<close> makes of
  it (\<open>None\<close> when it throws, which the handler's \<open>catch\<close> logs). The state updates
  that the handler queues are applied in the order it queues them.
\<close>

definition on_message ::
  "js_runtime \<Rightarrow> js_date \<Rightarrow> string \<Rightarrow> json option \<Rightarrow> p2_state \<Rightarrow> p2_state \<times> p2_effect list" where
  "on_message js now topic payload s =
     (if startsWith topic ''Response/'' then
        (case payload of
           None \<Rightarrow> (s, [Console ''payload'', Console ''MQTT message parse error''])
         | Some parsed \<Rightarrow>
             (case as_RawDeviceMap js parsed of
                Some m \<Rightarrow> (s\<lparr>rawMap := m\<rparr>, [Console ''payload''])
              | None \<Rightarrow> (s, [Console ''payload''])))
      else if toLowerCase topic = ''notify'' then
        (case payload of
           None \<Rightarrow> (s, [Console ''payload'', Console ''MQTT message parse error''])
         | Some msg \<Rightarrow>
             if falsy (Some msg) \<or> js_prop msg ''cmd'' \<noteq> Some (JStr ''alert'')
             then (s, [Console ''payload''])
             else
               let numId = Number_v js (nullish (js_prop msg ''id'') (js_prop msg ''idx'')) in
               if \<not> isFinite numId then (s, [Console ''payload''])
               else
                 (case recentArr_of js (js_prop msg ''recent_obj'') of
                    None \<Rightarrow> (s, [Console ''payload''])
                  | Some recentArr \<Rightarrow>
                      let alertPayload =
                            JObj [(''cmd'', JStr ''alert''), (''id'', JNum numId),
                                  (''recent_obj'', recent_json recentArr)];
                          s1 = s\<lparr>rawMap :=
                                 set_recent (NumberToString js numId) recentArr (rawMap s)\<rparr>;
                          s2 = s1\<lparr>alertedIds := insert numId (alertedIds s1)\<rparr>
                      in (s2, [Console ''payload'', Post_save_alert alertPayload,
                               Toast_intrusion (toLocaleTimeString now)
                                 (fst (snd recentArr))])))
      else (s, [Console ''payload'']))"

text \<open>
  How the request to \<open>/api/save-alert\<close> ends: a response with a status (\<open>response.ok\<close>
  is a status from 200 to 299) or a network error. The callbacks only write to the
  console.
\<close>

datatype fetch_outcome = Http_status nat | Network_error

definition on_fetch_settled :: "fetch_outcome \<Rightarrow> p2_state \<Rightarrow> p2_state \<times> p2_effect list" where
  "on_fetch_settled outcome s =
     (case outcome of
        Http_status c \<Rightarrow>
          if 200 \<le> c \<and> c \<le> 299
          then (s, [Console ''Alert data sent to backend successfully.''])
          else (s, [Console ''Failed to send alert data to backend.''])
      | Network_error \<Rightarrow> (s, [Console ''Network error while sending alert data'']))"

subsection \<open>Errors, close, teardown\<close>

definition on_error :: "p2_state \<Rightarrow> p2_state \<times> p2_effect list" where
  "on_error s = (s, [Console ''MQTT Error''])"

text \<open>
  \<open>client.on("close")\<close>, with the \<open>didConnect\<close> and the \<open>rawMap\<close> of the closure
  that registered it.
\<close>

definition close_handler :: "bool \<Rightarrow> RawDeviceMap \<Rightarrow> p2_state \<Rightarrow> p2_state \<times> p2_effect list" where
  "close_handler didConnect' rawMap' s =
     (let s1 = (if \<not> didConnect' \<and> rawMap' = []
                then s\<lparr>rawMap := (if rawMap s \<noteq> [] then rawMap s else FALLBACK_RAW)\<rparr>
                else s)
      in (s1\<lparr>connected := False\<rparr>, [Console ''MQTT Closed'']))"

definition on_close :: "p2_state \<Rightarrow> p2_state \<times> p2_effect list" where
  \<comment> \<open>the close event of the client that the effect holds\<close>
  "on_close s = close_handler (didConnect s) (rawMap_seen s) s"

definition on_close_ended :: "nat \<Rightarrow> p2_state \<Rightarrow> p2_state \<times> p2_effect list" where
  \<comment> \<open>the close event of the \<open>i\<close>-th ended client\<close>
  "on_close_ended i s =
     (case ended s ! i of (didConnect', rawMap') \<Rightarrow>
        close_handler didConnect' rawMap' (s\<lparr>ended := take i (ended s) @ drop (Suc i) (ended s)\<rparr>))"

definition cleanup :: "p2_state \<Rightarrow> p2_state \<times> p2_effect list" where
  \<comment> \<open>the cleanup of the effect: \<open>clearTimeout\<close>, \<open>client.end(true)\<close>,
      \<open>clientRef.current = null\<close>\<close>
  "cleanup s =
     (s\<lparr>fallbackTimer := False, clientRef := False,
        ended := ended s @ [(didConnect s, rawMap_seen s)]\<rparr>, [Client_end])"

definition unmount :: "p2_state \<Rightarrow> p2_state \<times> p2_effect list" where
  \<comment> \<open>the component goes away: the cleanup runs if the effect opened a session\<close>
  "unmount s =
     (case (if clientRef s then cleanup s else (s, [])) of
        (s1, out) \<Rightarrow> (s1\<lparr>alive := False\<rparr>, out))"

definition rerun :: "jsnum list \<Rightarrow> p2_state \<Rightarrow> p2_state \<times> p2_effect list" where
  \<comment> \<open>\<open>ids\<close> has changed: the cleanup of the last run (if it opened a session), then the
      effect with the new list\<close>
  "rerun ids s =
     (case (if clientRef s then cleanup s else (s, [])) of
        (s1, out1) \<Rightarrow> (case mount ids s1 of (s2, out2) \<Rightarrow> (s2, out1 @ out2)))"

subsection \<open>The user\<close>

definition marker_click :: "jsnum \<Rightarrow> p2_state \<Rightarrow> p2_state" where
  "marker_click i s = s\<lparr>currentId := Some i, alertedIds := alertedIds s - {i}\<rparr>"

definition map_click :: "p2_state \<Rightarrow> p2_state" where
  "map_click s = s\<lparr>currentId := None\<rparr>"

datatype direction = Left | Right
datatype press = Start | Stop

definition publishPTZ ::
  "js_runtime \<Rightarrow> js_date \<Rightarrow> direction \<Rightarrow> press \<Rightarrow> p2_state \<Rightarrow> p2_effect list" where
  "publishPTZ js now dir state s =
     (case currentId s of
        None \<Rightarrow> []
      | Some i \<Rightarrow>
          if i = Fin 0 \<or> i = NaN \<or> \<not> clientRef s then []
          else
            let topic = ''CONTROL/device/'' @ NumberToString js i;
                commend = (if state = Stop then ''stop''
                           else case dir of Left \<Rightarrow> ''left'' | Right \<Rightarrow> ''right'');
                payload = JObj [(''user'', JStr USER_UUID),
                                (''timestamp'', JStr (nowHHMMSS js now)),
                                (''commend'', JStr commend), (''id'', JNum i)]
            in [Publish topic payload])"

subsection \<open>The session as a transition system\<close>

text \<open>
  The events of the map view. The broker client raises its events only while the effect
  holds it, it delivers a message only on a connection that was established, and the timer
  fires only while it is pending; an ended client raises its close event once; the effect
  runs again, and the component is unmounted, only while the component is mounted. An
  event that cannot occur leaves the state as it is.
\<close>

datatype p2_event =
    Connect js_date
  | Mqtt_message js_date string "json option"
  | Fetch_settled fetch_outcome
  | Mqtt_error
  | Close
  | Close_ended nat
  | Fallback_timeout
  | Rerun "jsnum list"
  | Unmount
  | Marker_click jsnum
  | Map_click
  | PTZ js_date direction press

definition step :: "js_runtime \<Rightarrow> p2_event \<Rightarrow> p2_state \<Rightarrow> p2_state \<times> p2_effect list" where
  "step js e s =
     (case e of
        Connect now \<Rightarrow> if clientRef s then on_connect js now s else (s, [])
      | Mqtt_message now topic payload \<Rightarrow>
          if clientRef s \<and> didConnect s then on_message js now topic payload s else (s, [])
      | Fetch_settled outcome \<Rightarrow> on_fetch_settled outcome s
      | Mqtt_error \<Rightarrow> if clientRef s then on_error s else (s, [])
      | Close \<Rightarrow> if clientRef s then on_close s else (s, [])
      | Close_ended i \<Rightarrow>
          if alive s \<and> i < length (ended s) then on_close_ended i s else (s, [])
      | Fallback_timeout \<Rightarrow> if fallbackTimer s then on_fallback_timer s else (s, [])
      | Rerun ids \<Rightarrow> if alive s then rerun ids s else (s, [])
      | Unmount \<Rightarrow> if alive s then unmount s else (s, [])
      | Marker_click i \<Rightarrow> (marker_click i s, [])
      | Map_click \<Rightarrow> (map_click s, [])
      | PTZ now dir state \<Rightarrow> (s, publishPTZ js now dir state s))"

fun run :: "js_runtime \<Rightarrow> p2_event list \<Rightarrow> p2_state \<Rightarrow> p2_state" where
  "run js [] s = s"
| "run js (e # es) s = run js es (fst (step js e s))"

definition opened :: "jsnum list \<Rightarrow> p2_state" where
  \<comment> \<open>the state in which the view starts: first render, then the effect\<close>
  "opened ids = fst (mount ids initial_state)"

section \<open>Invariants of the session\<close>


text \<open>
  As long as the effect has run once only, its closures hold the empty registry of the
  first render, no client has been ended, and a client that has never connected has
  received no table: the registry is empty or the fallback dataset.
\<close>

definition live_inv :: "p2_state \<Rightarrow> bool" where
  "live_inv s \<longleftrightarrow> rawMap_seen s = [] \<and> (alive s \<longrightarrow> ended s = [])
     \<and> (didConnect s \<or> rawMap s = [] \<or> rawMap s = FALLBACK_RAW)"

section \<open>A concrete runtime and sample data\<close>

text \<open>
  The theorems below hold for every runtime. The examples are evaluated with this one:
  it reads the unsigned decimal literals (digits, with an optional fraction) as
  \<open>Number\<close> does and takes every other string but the empty one for NaN, and it prints
  the integers as \<open>String\<close> does (those below \<open>10^21\<close>). The order of event times
  in the examples is the order of the ISO-8601 texts.
\<close>

definition digit_val :: "char \<Rightarrow> nat option" where
  "digit_val c = (let n = of_char c :: nat in if 48 \<le> n \<and> n \<le> 57 then Some (n - 48) else None)"

fun read_digits :: "nat \<Rightarrow> string \<Rightarrow> nat option" where
  "read_digits acc [] = Some acc"
| "read_digits acc (c # cs) =
     (case digit_val c of None \<Rightarrow> None | Some d \<Rightarrow> read_digits (10 * acc + d) cs)"

definition Number_dec :: "string \<Rightarrow> jsnum" where
  "Number_dec s =
     (let ip = takeWhile (\<lambda>c. c \<noteq> CHR ''.'') s;
          fp = drop (Suc (length ip)) s
      in if s = [] then Fin 0
         else if ip = [] \<and> fp = [] then NaN
         else case (read_digits 0 ip, read_digits 0 fp) of
                (Some a, Some b) \<Rightarrow> Fin (of_nat a + of_nat b / of_nat (10 ^ length fp))
              | _ \<Rightarrow> NaN)"

fun dec_of_nat :: "nat \<Rightarrow> string" where
  "dec_of_nat n =
     (if n < 10 then [''0123456789'' ! n]
      else dec_of_nat (n div 10) @ [''0123456789'' ! (n mod 10)])"

definition String_dec :: "jsnum \<Rightarrow> string" where
  "String_dec n =
     (case n of
        NaN \<Rightarrow> ''NaN''
      | PosInf \<Rightarrow> ''Infinity''
      | NegInf \<Rightarrow> ''-Infinity''
      | Fin q \<Rightarrow>
          (if q = of_int \<lfloor>q\<rfloor>
           then (if q < 0 then ''-'' @ dec_of_nat (nat (- \<lfloor>q\<rfloor>)) else dec_of_nat (nat \<lfloor>q\<rfloor>))
           else ''?''))"

definition js_dec :: js_runtime where
  "js_dec = \<lparr>StringToNumber = Number_dec, NumberToString = String_dec\<rparr>"

definition text_key :: "jsval \<Rightarrow> string" where
  \<comment> \<open>event times ordered as texts\<close>
  "text_key v = (case v of Some (JStr s) \<Rightarrow> s | _ \<Rightarrow> [])"

text \<open>Sample requests, tables, messages and states.\<close>

definition mk_row :: "rat \<Rightarrow> string \<Rightarrow> string \<Rightarrow> string \<Rightarrow> alert_row" where
  "mk_row d t obj img =
     \<lparr>device_id = Some (JNum (Fin d)), event_time = Some (JStr t),
      detected_object = Some (JStr obj), base64_image = Some (JStr img)\<rparr>"

definition june_rows :: alerts_table where
  "june_rows = map (\<lambda>day. mk_row 2 (''2025-06-'' @ day @ ''T08:00:00'') ''hog'' ''img'')
     [''01'', ''02'', ''03'', ''04'', ''05'', ''06'', ''07'', ''08'', ''09'', ''10'']"

definition may_alert :: json where
  "may_alert = JObj [(''id'', JNum (Fin 2)),
     (''recent_obj'', JArr [JStr ''2025-05-01T23:21:52'', JStr ''hog'', JStr ''img''])]"

definition short_alert :: json where
  "short_alert = JObj [(''id'', JNum (Fin 2)),
     (''recent_obj'', JArr [JStr ''2025-05-01T23:21:52'', JStr ''hog''])]"

definition may_row :: alert_row where
  "may_row = mk_row 2 ''2025-05-01T23:21:52'' ''hog'' ''img''"

definition noon :: js_date where
  "noon = \<lparr>getHours = 12, getMinutes = 0, getSeconds = 5, toLocaleTimeString = ''12:00 PM''\<rparr>"


definition three_devices :: RawDeviceMap where
  "three_devices = take 3 FALLBACK_RAW"

definition no_position :: RawDeviceMap where
  \<comment> \<open>devices 1, 2 and 3, the third with a latitude that is no number\<close>
  "no_position =
     map (\<lambda>(k, e). (k, if k = ''3''
                         then Device ((entry_fields e)\<lparr>rd_lat := Some (JStr ''north'')\<rparr>)
                         else e))
       three_devices"

definition two_items :: "list_item list" where
  "two_items =
     [\<lparr>li_id = Fin 1, li_name = ''first'', li_status = label_normal, li_statusDot = ''green'',
       li_battery = ''40'', li_lat = None, li_lng = None\<rparr>,
      \<lparr>li_id = Fin 2, li_name = ''second'', li_status = label_normal, li_statusDot = ''green'',
       li_battery = ''20'', li_lat = None, li_lng = None\<rparr>]"

definition update2 :: json where
  "update2 = JObj [(''cmd'', JStr ''status_update''), (''id'', JNum (Fin 2)),
                   (''status'', JStr ''BAD''), (''battery'', JStr ''77'')]"

definition device7 :: RawDevice where
  "device7 =
     \<lparr>rd_battery = Some (JStr ''90''), rd_temp = None, rd_humi = None,
      rd_status = Some (JStr ''GOOD''), rd_lat = Some (JStr ''37.5''),
      rd_lng = Some (JStr ''127.0''), rd_recent_obj = None\<rparr>"

definition live_table :: json where
  \<comment> \<open>a table of the broker: device 7, and a key 9 with the value \<open>null\<close>\<close>
  "live_table =
     JObj [(''9'', JNull),
           (''7'', JObj [(''battery'', JStr ''90''), (''status'', JStr ''GOOD''),
                         (''lat'', JStr ''37.5''), (''lng'', JStr ''127.0'')])]"

definition live_trace :: "p2_event list" where
  "live_trace = [Connect noon, Mqtt_message noon ''Response/devices'' (Some live_table)]"

definition live_state :: p2_state where
  \<comment> \<open>connected, with the broker's table in the registry\<close>
  "live_state = run js_dec live_trace (opened [Fin 7])"

definition alert7 :: json where
  \<comment> \<open>an alert that names the device by \<open>idx\<close>, as a text\<close>
  "alert7 = JObj [(''cmd'', JStr ''alert''), (''idx'', JStr ''7''),
     (''recent_obj'', JArr [JStr ''2025-05-01T23:21:52'', JStr ''hog'', JStr ''url''])]"

definition alert9 :: json where
  "alert9 = JObj [(''cmd'', JStr ''alert''), (''id'', JNum (Fin 9)),
     (''recent_obj'', JArr [JStr ''2025-05-01T23:21:52'', JStr ''hog'', JStr ''url''])]"

definition fallback_selected :: p2_state where
  "fallback_selected = run js_dec [Fallback_timeout, Marker_click (Fin 1)] (opened [Fin 1])"

section \<open>Properties of the persistence gateway\<close>

lemma set_insert_desc: "set (insert_desc k x ys) = insert x (set ys)"
  by (induction ys) auto

lemma mset_insert_desc: "mset (insert_desc k x ys) = add_mset x (mset ys)"
  by (induction ys) auto

lemma sorted_insert_desc:
  "sorted_wrt (\<lambda>a b. k b \<le> k a) ys \<Longrightarrow> sorted_wrt (\<lambda>a b. k b \<le> k a) (insert_desc k x ys)"
proof (induction ys)
  case Nil
  then show ?case by simp
next
  case (Cons y ys)
  show ?case
  proof (cases "k y < k x")
    case True
    with Cons.prems show ?thesis by (auto intro: order.trans less_imp_le)
  next
    case False
    with Cons show ?thesis by (auto simp: set_insert_desc)
  qed
qed

lemma mset_fold_insert_desc:
  "mset (fold (insert_desc k) xs acc) = mset xs + mset acc"
  by (induction xs arbitrary: acc) (simp_all add: mset_insert_desc)

lemma sorted_fold_insert_desc:
  "sorted_wrt (\<lambda>a b. k b \<le> k a) acc \<Longrightarrow>
   sorted_wrt (\<lambda>a b. k b \<le> k a) (fold (insert_desc k) xs acc)"
  by (induction xs arbitrary: acc) (simp_all add: sorted_insert_desc)

lemma mset_order_by_desc: "mset (order_by_desc k xs) = mset xs"
  by (simp add: order_by_desc_def mset_fold_insert_desc)

lemma set_order_by_desc: "set (order_by_desc k xs) = set xs"
  using mset_order_by_desc [of k xs] by (metis set_mset_mset)

lemma length_order_by_desc: "length (order_by_desc k xs) = length xs"
  using mset_order_by_desc [of k xs] by (metis size_mset)

lemma sorted_order_by_desc: "sorted_wrt (\<lambda>a b. k b \<le> k a) (order_by_desc k xs)"
  by (simp add: order_by_desc_def sorted_fold_insert_desc)

lemma order_by_desc_snoc:
  "order_by_desc k (xs @ [x]) = insert_desc k x (order_by_desc k xs)"
  by (simp add: order_by_desc_def)

lemma insert_desc_split:
  "insert_desc k x ys =
     takeWhile (\<lambda>y. k x \<le> k y) ys @ x # dropWhile (\<lambda>y. k x \<le> k y) ys"
  by (induction ys) (auto simp: not_less)

lemma length_takeWhile_le_filter: "length (takeWhile P ys) \<le> length (filter P ys)"
  by (induction ys) auto

lemma length_filter_mset_cong:
  "mset ys = mset xs \<Longrightarrow> length (filter P ys) = length (filter P xs)"
  by (metis mset_filter size_mset)

lemma insert_desc_position:
  assumes "length (filter (\<lambda>y. k x \<le> k y) ys) < n"
  shows "\<exists>i<n. i < length (take n (insert_desc k x ys)) \<and> take n (insert_desc k x ys) ! i = x"
proof -
  let ?i = "length (takeWhile (\<lambda>y. k x \<le> k y) ys)"
  have i: "?i < n"
    using assms length_takeWhile_le_filter [of "\<lambda>y. k x \<le> k y" ys] by simp
  have at: "insert_desc k x ys ! ?i = x"
    by (simp add: insert_desc_split nth_append)
  have len: "?i < length (insert_desc k x ys)"
    by (subst insert_desc_split) simp
  from i at len show ?thesis
    by (intro exI [of _ ?i]) simp
qed

text \<open>
  C3. A save-alert request whose body has no \<open>recent_obj\<close>, or whose \<open>recent_obj\<close> is
  an array of fewer than three elements, is answered with status 400 whether or not the
  store is available, and the table is left as it was: the check comes before the query.
\<close>

theorem save_alert_rejects_malformed:
  assumes "js_prop body ''recent_obj'' = None \<or>
           (\<exists>xs. js_prop body ''recent_obj'' = Some (JArr xs) \<and> length xs < 3)"
  shows "save_alert js db_ok body tbl =
           (Response 400 (Message ''Invalid payload structure.''), tbl)"
  using assms
  by (auto simp: save_alert_def Let_def falsy_def js_length_def Number_v_def lt_num_def)

theorem save_alert_rejects_malformed_witness:
  "js_prop short_alert ''recent_obj'' = Some (JArr [JStr ''2025-05-01T23:21:52'', JStr ''hog''])
   \<and> save_alert js_dec True short_alert june_rows =
       (Response 400 (Message ''Invalid payload structure.''), june_rows)
   \<and> save_alert js_dec True (JObj [(''id'', JNum (Fin 2))]) june_rows =
       (Response 400 (Message ''Invalid payload structure.''), june_rows)"
proof -
  have r: "js_prop short_alert ''recent_obj'' = Some (JArr [JStr ''2025-05-01T23:21:52'', JStr ''hog''])"
    by (simp add: short_alert_def js_prop_def lookup_last_def)
  have a: "js_prop (JObj [(''id'', JNum (Fin 2))]) ''recent_obj'' = None"
    by (simp add: js_prop_def lookup_last_def)
  from r a show ?thesis
    using save_alert_rejects_malformed [of short_alert js_dec True june_rows]
      save_alert_rejects_malformed [of "JObj [(''id'', JNum (Fin 2))]" js_dec True june_rows]
    by simp
qed

lemma select_recent_length: "length (select_recent tkey d tbl) \<le> 10"
  by (simp add: select_recent_def)

lemma select_recent_device:
  "r \<in> set (select_recent tkey d tbl) \<Longrightarrow> device_id r = Some (JNum d) \<and> r \<in> set tbl"
  by (auto simp: select_recent_def set_order_by_desc dest!: in_set_takeD)

lemma select_recent_sorted:
  "sorted_wrt (\<lambda>a b. tkey (event_time b) \<le> tkey (event_time a)) (select_recent tkey d tbl)"
  unfolding select_recent_def by (intro sorted_wrt_take sorted_order_by_desc)

text \<open>
  C4. The recent-alerts request is answered with status 400 when \<open>Number(device_id)\<close> is
  not a finite number. Otherwise, when the query succeeds, the answer has status 200 and
  carries at most ten rows, all of that device and all from the table, in descending order
  of event time: they are the first ten of a descending arrangement of all the rows of that
  device. In every case the table is left as it was.
\<close>

theorem get_recent_alerts_contract:
  "(\<not> isFinite (Number_v js q) \<longrightarrow>
      get_recent_alerts js db_ok tkey q tbl =
        (Response 400 (Error ''device_id is required''), tbl))
   \<and> (isFinite (Number_v js q) \<and> db_ok \<longrightarrow>
      (\<exists>rows. get_recent_alerts js db_ok tkey q tbl = (Response 200 (Rows rows), tbl)
         \<and> length rows \<le> 10
         \<and> (\<forall>r \<in> set rows. device_id r = Some (JNum (Number_v js q)) \<and> r \<in> set tbl)
         \<and> sorted_wrt (\<lambda>a b. tkey (event_time b) \<le> tkey (event_time a)) rows
         \<and> (\<exists>ys. mset ys = mset (filter (\<lambda>r. device_id r = Some (JNum (Number_v js q))) tbl)
                \<and> sorted_wrt (\<lambda>a b. tkey (event_time b) \<le> tkey (event_time a)) ys
                \<and> rows = take 10 ys)))
   \<and> snd (get_recent_alerts js db_ok tkey q tbl) = tbl"
proof (intro conjI impI)
  assume "\<not> isFinite (Number_v js q)"
  then show "get_recent_alerts js db_ok tkey q tbl =
        (Response 400 (Error ''device_id is required''), tbl)"
    by (simp add: get_recent_alerts_def)
next
  assume ok: "isFinite (Number_v js q) \<and> db_ok"
  let ?d = "Number_v js q"
  let ?P = "\<lambda>r. device_id r = Some (JNum ?d)"
  let ?ys = "order_by_desc (\<lambda>r. tkey (event_time r)) (filter ?P tbl)"
  have res: "get_recent_alerts js db_ok tkey q tbl =
               (Response 200 (Rows (select_recent tkey ?d tbl)), tbl)"
    using ok by (simp add: get_recent_alerts_def)
  have whole: "mset ?ys = mset (filter ?P tbl)
      \<and> sorted_wrt (\<lambda>a b. tkey (event_time b) \<le> tkey (event_time a)) ?ys
      \<and> select_recent tkey ?d tbl = take 10 ?ys"
    by (simp add: mset_order_by_desc sorted_order_by_desc select_recent_def)
  show "\<exists>rows. get_recent_alerts js db_ok tkey q tbl = (Response 200 (Rows rows), tbl)
         \<and> length rows \<le> 10
         \<and> (\<forall>r \<in> set rows. device_id r = Some (JNum ?d) \<and> r \<in> set tbl)
         \<and> sorted_wrt (\<lambda>a b. tkey (event_time b) \<le> tkey (event_time a)) rows
         \<and> (\<exists>ys. mset ys = mset (filter ?P tbl)
                \<and> sorted_wrt (\<lambda>a b. tkey (event_time b) \<le> tkey (event_time a)) ys
                \<and> rows = take 10 ys)"
    using res select_recent_length [of tkey ?d tbl] select_recent_sorted [of tkey ?d tbl]
      select_recent_device [of _ tkey ?d tbl] whole
    by (intro exI [of _ "select_recent tkey ?d tbl"]) blast
next
  show "snd (get_recent_alerts js db_ok tkey q tbl) = tbl"
    by (simp add: get_recent_alerts_def Let_def)
qed

theorem get_recent_alerts_contract_witness:
  "\<not> isFinite (Number_v js_dec (Some (JStr ''abc'')))
   \<and> get_recent_alerts js_dec True text_key (Some (JStr ''abc'')) june_rows =
        (Response 400 (Error ''device_id is required''), june_rows)
   \<and> isFinite (Number_v js_dec (Some (JStr ''2'')))
   \<and> (\<exists>rows. get_recent_alerts js_dec True text_key (Some (JStr ''2'')) (may_row # june_rows) =
          (Response 200 (Rows rows), may_row # june_rows)
        \<and> length rows \<le> 10
        \<and> (\<forall>r \<in> set rows. device_id r = Some (JNum (Fin 2)) \<and> r \<in> set (may_row # june_rows))
        \<and> sorted_wrt (\<lambda>a b. text_key (event_time b) \<le> text_key (event_time a)) rows)"
proof -
  have n: "Number_v js_dec (Some (JStr ''abc'')) = NaN"
    by (simp add: Number_v_def js_dec_def Number_dec_def digit_val_def)
  have f: "Number_v js_dec (Some (JStr ''2'')) = Fin 2"
    by (simp add: Number_v_def js_dec_def Number_dec_def digit_val_def)
  show ?thesis
    using get_recent_alerts_contract [of js_dec "Some (JStr ''abc'')" True text_key june_rows]
      get_recent_alerts_contract [of js_dec "Some (JStr ''2'')" True text_key "may_row # june_rows"]
    unfolding n f by (auto simp: isFinite_def)
qed

text \<open>
  C2 does not hold for every submission: the event time comes from the device, and the
  query keeps the ten rows with the latest event times. With ten rows of June already
  stored for device 2, an alert of 1 May is saved with status 200 and the recent-alerts
  answer holds the ten June rows only.
\<close>

theorem save_then_recent_counterexample:
  "save_alert js_dec True may_alert june_rows =
     (Response 200 (Message ''Alert saved successfully.''), june_rows @ [may_row])
   \<and> get_recent_alerts js_dec True text_key (Some (JStr ''2'')) (june_rows @ [may_row]) =
     (Response 200 (Rows (rev june_rows)), june_rows @ [may_row])
   \<and> may_row \<notin> set (rev june_rows)"
  by code_simp

lemma descending_prefix_keys:
  assumes "sorted_wrt (\<lambda>a b. k b \<le> k a) ys" "i < length ys" "y \<in> set (take i ys)"
  shows "k (ys ! i) \<le> k y"
proof -
  from assms(3) obtain j where j: "j < i" "j < length ys" "y = ys ! j"
    by (auto simp: in_set_conv_nth)
  with assms(1,2) show ?thesis
    by (auto simp: sorted_wrt_iff_nth_less)
qed

lemma descending_member_position:
  assumes srt: "sorted_wrt (\<lambda>a b. k b \<le> k a) ys"
    and ms: "mset ys = add_mset x (mset xs)"
    and few: "length (filter (\<lambda>y. k x \<le> k y) xs) < n"
  shows "\<exists>i<n. i < length ys \<and> ys ! i = x"
proof -
  have "x \<in> set ys" using ms by (metis set_mset_mset union_single_eq_member)
  then obtain i where i: "i < length ys" "ys ! i = x"
    by (auto simp: in_set_conv_nth)
  have split: "ys = take i ys @ x # drop (Suc i) ys"
    using i by (metis id_take_nth_drop)
  have "mset ys = add_mset x (mset (take i ys) + mset (drop (Suc i) ys))"
    by (subst split) simp
  with ms have rest: "mset xs = mset (take i ys) + mset (drop (Suc i) ys)"
    by simp
  have all: "\<forall>y \<in> set (take i ys). k x \<le> k y"
    using descending_prefix_keys [OF srt i(1)] i(2) by blast
  have "i = length (take i ys)" using i(1) by simp
  also have "\<dots> = length (filter (\<lambda>y. k x \<le> k y) (take i ys))"
    using all by (simp add: filter_id_conv)
  also have "\<dots> = size (filter_mset (\<lambda>y. k x \<le> k y) (mset (take i ys)))"
    by (metis mset_filter size_mset)
  also have "\<dots> \<le> size (filter_mset (\<lambda>y. k x \<le> k y) (mset xs))"
    unfolding rest by simp
  also have "\<dots> = length (filter (\<lambda>y. k x \<le> k y) xs)"
    by (metis mset_filter size_mset)
  finally have "i < n" using few by simp
  with i show ?thesis by blast
qed

text \<open>
  C2, amended. When a submission with a finite numeric id and a three-element tuple is
  stored, and fewer than ten rows of that device in the table have an event time at or
  after the submitted one, then the recent-alerts answer for that id holds, at one of its
  first ten places, the row with the submitted id, event time, detected object and image.
  This does not depend on how the store orders rows with equal event times: the row is
  among the first ten of every descending arrangement of the device's rows.
\<close>

theorem save_then_recent:
  assumes id: "js_prop body ''id'' = Some (JNum (Fin d))"
    and ro: "js_prop body ''recent_obj'' = Some (JArr [t, obj, img])"
    and q: "Number_v js q = Fin d"
    and few: "length (filter (\<lambda>r. device_id r = Some (JNum (Fin d))
                \<and> tkey (Some t) \<le> tkey (event_time r)) tbl) < 10"
  shows "\<exists>tbl' rows i.
           save_alert js True body tbl = (Response 200 (Message ''Alert saved successfully.''), tbl')
         \<and> get_recent_alerts js True tkey q tbl' = (Response 200 (Rows rows), tbl')
         \<and> i < 10 \<and> i < length rows
         \<and> rows ! i = \<lparr>device_id = Some (JNum (Fin d)), event_time = Some t,
                        detected_object = Some obj, base64_image = Some img\<rparr>
         \<and> (\<forall>ys. mset ys = mset (filter (\<lambda>r. device_id r = Some (JNum (Fin d))) tbl')
                  \<and> sorted_wrt (\<lambda>a b. tkey (event_time b) \<le> tkey (event_time a)) ys
               \<longrightarrow> (\<exists>j<10. j < length ys
                      \<and> ys ! j = \<lparr>device_id = Some (JNum (Fin d)), event_time = Some t,
                                    detected_object = Some obj, base64_image = Some img\<rparr>))"
proof -
  let ?row = "\<lparr>device_id = Some (JNum (Fin d)), event_time = Some t,
                detected_object = Some obj, base64_image = Some img\<rparr>"
  let ?P = "\<lambda>r. device_id r = Some (JNum (Fin d))"
  let ?k = "\<lambda>r. tkey (event_time r)"
  let ?ys = "order_by_desc ?k (filter ?P tbl)"
  have save: "save_alert js True body tbl =
                (Response 200 (Message ''Alert saved successfully.''), tbl @ [?row])"
    using id ro
    by (simp add: save_alert_def Let_def falsy_def js_length_def Number_v_def lt_num_def
        js_index_def)
  have sel: "select_recent tkey (Fin d) (tbl @ [?row]) = take 10 (insert_desc ?k ?row ?ys)"
    by (simp add: select_recent_def order_by_desc_snoc)
  have get: "get_recent_alerts js True tkey q (tbl @ [?row]) =
               (Response 200 (Rows (take 10 (insert_desc ?k ?row ?ys))), tbl @ [?row])"
    using sel by (simp add: get_recent_alerts_def Let_def q isFinite_def)
  have few': "length (filter (\<lambda>y. ?k ?row \<le> ?k y) (filter ?P tbl)) < 10"
    using few by (simp add: conj_commute)
  have "length (filter (\<lambda>y. ?k ?row \<le> ?k y) ?ys) =
        length (filter (\<lambda>y. ?k ?row \<le> ?k y) (filter ?P tbl))"
    by (rule length_filter_mset_cong) (rule mset_order_by_desc)
  with few' have "length (filter (\<lambda>y. ?k ?row \<le> ?k y) ?ys) < 10"
    by simp
  from insert_desc_position [OF this]
  obtain i where i: "i < 10" "i < length (take 10 (insert_desc ?k ?row ?ys))"
    "take 10 (insert_desc ?k ?row ?ys) ! i = ?row"
    by blast
  have any: "\<forall>ys. mset ys = mset (filter ?P (tbl @ [?row])) \<and> sorted_wrt (\<lambda>a b. ?k b \<le> ?k a) ys
               \<longrightarrow> (\<exists>j<10. j < length ys \<and> ys ! j = ?row)"
  proof (intro allI impI)
    fix ys
    assume ys: "mset ys = mset (filter ?P (tbl @ [?row])) \<and> sorted_wrt (\<lambda>a b. ?k b \<le> ?k a) ys"
    then have ms: "mset ys = add_mset ?row (mset (filter ?P tbl))"
      by simp
    from ys have srt: "sorted_wrt (\<lambda>a b. ?k b \<le> ?k a) ys" by blast
    from descending_member_position [OF srt ms few']
    show "\<exists>j<10. j < length ys \<and> ys ! j = ?row" .
  qed
  from save get i any show ?thesis by blast
qed

theorem save_then_recent_witness:
  "js_prop may_alert ''id'' = Some (JNum (Fin 2))
   \<and> js_prop may_alert ''recent_obj'' =
       Some (JArr [JStr ''2025-05-01T23:21:52'', JStr ''hog'', JStr ''img''])
   \<and> Number_v js_dec (Some (JStr ''2'')) = Fin 2
   \<and> length (filter (\<lambda>r. device_id r = Some (JNum (Fin 2))
         \<and> text_key (Some (JStr ''2025-05-01T23:21:52'')) \<le> text_key (event_time r))
         (butlast june_rows)) < 10
   \<and> (\<exists>tbl' rows i.
         save_alert js_dec True may_alert (butlast june_rows) =
           (Response 200 (Message ''Alert saved successfully.''), tbl')
       \<and> get_recent_alerts js_dec True text_key (Some (JStr ''2'')) tbl' =
           (Response 200 (Rows rows), tbl')
       \<and> i < 10 \<and> i < length rows \<and> rows ! i = may_row)"
proof -
  have id: "js_prop may_alert ''id'' = Some (JNum (Fin 2))"
    by (simp add: may_alert_def js_prop_def lookup_last_def)
  have ro: "js_prop may_alert ''recent_obj'' =
              Some (JArr [JStr ''2025-05-01T23:21:52'', JStr ''hog'', JStr ''img''])"
    by (simp add: may_alert_def js_prop_def lookup_last_def)
  have q: "Number_v js_dec (Some (JStr ''2'')) = Fin 2"
    by (simp add: Number_v_def js_dec_def Number_dec_def digit_val_def)
  have few: "length (filter (\<lambda>r. device_id r = Some (JNum (Fin 2))
         \<and> text_key (Some (JStr ''2025-05-01T23:21:52'')) \<le> text_key (event_time r))
         (butlast june_rows)) < 10"
    by code_simp
  from save_then_recent [OF id ro q few]
  obtain tbl' rows i where
    "save_alert js_dec True may_alert (butlast june_rows) =
       (Response 200 (Message ''Alert saved successfully.''), tbl')"
    "get_recent_alerts js_dec True text_key (Some (JStr ''2'')) tbl' =
       (Response 200 (Rows rows), tbl')"
    "i < 10" "i < length rows" "rows ! i = may_row"
    unfolding may_row_def mk_row_def by blast
  with id ro q few show ?thesis by blast
qed

section \<open>Properties of the device list view\<close>

text \<open>
  C8. A status update of the list view, for a message whose id is a number, keeps the
  length of the list and every item's id, name, battery and coordinates; an item with
  another id is left as it is, and an item with the named id is the old item with the
  status label and the status dot of the message (the battery is not touched). When no
  item has the named id the list is unchanged: no item is created.
\<close>

theorem status_update_frame:
  assumes cmd: "js_prop m ''cmd'' = Some (JStr ''status_update'')"
    and idx: "Number_v js (nullish (js_prop m ''idx'') (js_prop m ''id'')) = idx"
    and nn: "idx \<noteq> NaN"
  shows "\<exists>prev'.
           P1_on_message js perm ''Notify'' (Some m) prev = (prev', [])
         \<and> length prev' = length prev
         \<and> map li_id prev' = map li_id prev
         \<and> map li_name prev' = map li_name prev
         \<and> map li_battery prev' = map li_battery prev
         \<and> map li_lat prev' = map li_lat prev
         \<and> map li_lng prev' = map li_lng prev
         \<and> (\<forall>i < length prev.
               (li_id (prev ! i) \<noteq> idx \<longrightarrow> prev' ! i = prev ! i)
             \<and> (li_id (prev ! i) = idx \<longrightarrow>
                  prev' ! i = (prev ! i)\<lparr>li_status := fst (mapStatus (js_prop m ''status'')),
                                            li_statusDot := snd (mapStatus (js_prop m ''status''))\<rparr>))
         \<and> (idx \<notin> li_id ` set prev \<longrightarrow> prev' = prev)"
proof -
  let ?st = "fst (mapStatus (js_prop m ''status''))"
  let ?dot = "snd (mapStatus (js_prop m ''status''))"
  let ?f = "\<lambda>it. if li_id it = idx then it\<lparr>li_status := ?st, li_statusDot := ?dot\<rparr> else it"
  have m: "m \<noteq> JNull" using cmd by (auto simp: js_prop_def)
  have res: "P1_on_message js perm ''Notify'' (Some m) prev = (map ?f prev, [])"
    using m cmd idx nn
    by (cases m) (simp_all add: P1_on_message_def isNaN_def Let_def split: prod.splits)
  have absent: "idx \<notin> li_id ` set prev \<longrightarrow> map ?f prev = prev"
  proof
    assume "idx \<notin> li_id ` set prev"
    then have "\<And>it. it \<in> set prev \<Longrightarrow> ?f it = it" by auto
    then show "map ?f prev = prev" by (rule map_idI)
  qed
  show ?thesis
    unfolding res using absent
    by (intro exI [of _ "map ?f prev"]) (simp add: comp_def)
qed

theorem status_update_frame_witness:
  "js_prop update2 ''cmd'' = Some (JStr ''status_update'')
   \<and> Number_v js_dec (nullish (js_prop update2 ''idx'') (js_prop update2 ''id'')) = Fin 2
   \<and> Fin 2 \<noteq> NaN
   \<and> (\<exists>prev'. P1_on_message js_dec Granted ''Notify'' (Some update2) two_items = (prev', [])
        \<and> map li_id prev' = [Fin 1, Fin 2]
        \<and> map li_battery prev' = [''40'', ''20'']
        \<and> prev' ! 0 = two_items ! 0
        \<and> li_status (prev' ! 1) = label_broken \<and> li_statusDot (prev' ! 1) = ''red'')"
proof -
  have cmd: "js_prop update2 ''cmd'' = Some (JStr ''status_update'')"
    by (simp add: update2_def js_prop_def lookup_last_def)
  have idx: "Number_v js_dec (nullish (js_prop update2 ''idx'') (js_prop update2 ''id'')) = Fin 2"
    by (simp add: update2_def js_prop_def lookup_last_def nullish_def Number_v_def)
  have nn: "Fin 2 \<noteq> NaN" by simp
  have st: "mapStatus (js_prop update2 ''status'') = (label_broken, ''red'')"
    by (simp add: update2_def js_prop_def lookup_last_def mapStatus_def)
  from status_update_frame [OF cmd idx nn, of Granted two_items]
  obtain prev' where p: "P1_on_message js_dec Granted ''Notify'' (Some update2) two_items = (prev', [])"
    "map li_id prev' = map li_id two_items" "map li_battery prev' = map li_battery two_items"
    "\<forall>i < length two_items.
       (li_id (two_items ! i) \<noteq> Fin 2 \<longrightarrow> prev' ! i = two_items ! i)
     \<and> (li_id (two_items ! i) = Fin 2 \<longrightarrow>
          prev' ! i = (two_items ! i)\<lparr>li_status := fst (mapStatus (js_prop update2 ''status'')),
                                       li_statusDot := snd (mapStatus (js_prop update2 ''status''))\<rparr>)"
    by blast
  from p(4) have "prev' ! 0 = two_items ! 0"
    "prev' ! 1 = (two_items ! 1)\<lparr>li_status := label_broken, li_statusDot := ''red''\<rparr>"
    by (simp_all add: two_items_def st)
  with p(1-3) cmd idx show ?thesis
    by (simp add: two_items_def)
qed

section \<open>Properties of the map view\<close>

lemma String_dec_small:
  "NumberToString js_dec (Fin 1) = ''1''" "NumberToString js_dec (Fin 2) = ''2''"
  "NumberToString js_dec (Fin 7) = ''7''" "NumberToString js_dec (Fin 9) = ''9''"
  "NumberToString js_dec (Fin 0) = ''0''" "NumberToString js_dec (Fin 5) = ''5''"
  "NumberToString js_dec (Fin 12) = ''12''"
  by code_simp+

lemma padStart2_small:
  "padStart2 ''0'' = ''00''" "padStart2 ''5'' = ''05''" "padStart2 ''12'' = ''12''"
  by (simp_all add: padStart2_def utf16_units_def units_of_point_def utf8_width_def)

lemma Number_dec_small:
  "StringToNumber js_dec ''7'' = Fin 7" "StringToNumber js_dec ''9'' = Fin 9"
  by (simp_all add: js_dec_def Number_dec_def digit_val_def)

lemma array_index_small:
  "array_index js_dec ''7'' = Some 7" "array_index js_dec ''9'' = Some 9"
  by (simp_all add: array_index_def Number_dec_small String_dec_small)

lemma noon_clock: "nowHHMMSS js_dec noon = ''12:00:05''"
  by (simp add: nowHHMMSS_def noon_def String_dec_small padStart2_small)

lemma set_insert_by_id: "set (insert_by_id x ys) = insert x (set ys)"
  by (induction ys) auto

lemma set_sort_by_id: "set (sort_by_id xs) = set xs"
  unfolding sort_by_id_def by (induction xs) (simp_all add: set_insert_by_id)

lemma set_map_filter_iff:
  "y \<in> set (List.map_filter f xs) \<longleftrightarrow> (\<exists>x \<in> set xs. f x = Some y)"
  by (induction xs) (auto split: option.splits)

lemma item_of_id:
  "item_of js S (k, e) = Some it \<Longrightarrow> it_id it = StringToNumber js k"
  by (auto simp: item_of_def Let_def split: if_splits prod.splits)

lemma item_of_defined:
  "(\<exists>it. item_of js S (k, e) = Some it) \<longleftrightarrow>
     StringToNumber js k \<in> S \<and> isFinite (Number_v js (rd_lat (entry_fields e)))
       \<and> isFinite (Number_v js (rd_lng (entry_fields e)))"
  by (auto simp: item_of_def Let_def split: if_splits prod.splits)

lemma items_ids:
  "it_id ` set (items js reg S) =
     {StringToNumber js k | k e. (k, e) \<in> set reg \<and> StringToNumber js k \<in> S
        \<and> isFinite (Number_v js (rd_lat (entry_fields e)))
        \<and> isFinite (Number_v js (rd_lng (entry_fields e)))}"
  (is "?L = ?R")
proof (intro set_eqI iffI)
  fix n assume "n \<in> ?L"
  then obtain it where it: "it \<in> set (List.map_filter (item_of js S) reg)" "n = it_id it"
    by (auto simp: items_def set_sort_by_id)
  then obtain k e where kd: "(k, e) \<in> set reg" "item_of js S (k, e) = Some it"
    by (auto simp: set_map_filter_iff)
  from kd(2) have "n = StringToNumber js k" using it(2) item_of_id by simp
  moreover from kd(2) item_of_defined [of js S k e]
  have "StringToNumber js k \<in> S \<and> isFinite (Number_v js (rd_lat (entry_fields e)))
       \<and> isFinite (Number_v js (rd_lng (entry_fields e)))" by blast
  ultimately show "n \<in> ?R" using kd(1) by blast
next
  fix n assume "n \<in> ?R"
  then obtain k e where kd: "(k, e) \<in> set reg" "n = StringToNumber js k"
    "StringToNumber js k \<in> S" "isFinite (Number_v js (rd_lat (entry_fields e)))"
    "isFinite (Number_v js (rd_lng (entry_fields e)))" by blast
  then obtain it where it: "item_of js S (k, e) = Some it"
    using item_of_defined [of js S k e] by blast
  then have "it \<in> set (items js reg S)"
    using kd(1) by (force simp: items_def set_sort_by_id set_map_filter_iff)
  moreover have "it_id it = n" using it kd(2) item_of_id by simp
  ultimately show "n \<in> ?L" by force
qed

text \<open>
  C5. The ids of the map's items are the numbers of the registry keys that are in the user's
  list and whose device has a finite latitude and a finite longitude after conversion; when
  every device of the registry has finite coordinates, they are the numbers of the registry
  keys intersected with the user's list. The registry is an argument of \<open>items\<close> only: a
  device that is left out of the items stays in the registry.
\<close>

theorem visible_items:
  "it_id ` set (items js reg (idSet ids)) =
     {StringToNumber js k | k e. (k, e) \<in> set reg \<and> StringToNumber js k \<in> set ids
        \<and> isFinite (Number_v js (rd_lat (entry_fields e)))
        \<and> isFinite (Number_v js (rd_lng (entry_fields e)))}
   \<and> ((\<forall>kd \<in> set reg. isFinite (Number_v js (rd_lat (entry_fields (snd kd))))
                          \<and> isFinite (Number_v js (rd_lng (entry_fields (snd kd)))))
        \<longrightarrow> it_id ` set (items js reg (idSet ids)) =
              StringToNumber js ` fst ` set reg \<inter> set ids)"
proof (intro conjI impI)
  show "it_id ` set (items js reg (idSet ids)) =
     {StringToNumber js k | k e. (k, e) \<in> set reg \<and> StringToNumber js k \<in> set ids
        \<and> isFinite (Number_v js (rd_lat (entry_fields e)))
        \<and> isFinite (Number_v js (rd_lng (entry_fields e)))}"
    by (simp add: items_ids idSet_def)
next
  assume fin: "\<forall>kd \<in> set reg. isFinite (Number_v js (rd_lat (entry_fields (snd kd))))
                          \<and> isFinite (Number_v js (rd_lng (entry_fields (snd kd))))"
  show "it_id ` set (items js reg (idSet ids)) = StringToNumber js ` fst ` set reg \<inter> set ids"
    unfolding items_ids idSet_def using fin by force
qed

theorem visible_items_witness:
  "map fst three_devices = [''1'', ''2'', ''3'']
   \<and> it_id ` set (items js_dec three_devices (idSet [Fin 1, Fin 3, Fin 4])) = {Fin 1, Fin 3}
   \<and> StringToNumber js_dec ` fst ` set three_devices \<inter> set [Fin 1, Fin 3, Fin 4]
       = {Fin 1, Fin 3}
   \<and> map fst no_position = [''1'', ''2'', ''3'']
   \<and> map it_id (items js_dec no_position (idSet [Fin 1, Fin 3, Fin 4])) = [Fin 1]
   \<and> {StringToNumber js_dec k | k e. (k, e) \<in> set no_position
        \<and> StringToNumber js_dec k \<in> set [Fin 1, Fin 3, Fin 4]
        \<and> isFinite (Number_v js_dec (rd_lat (entry_fields e)))
        \<and> isFinite (Number_v js_dec (rd_lng (entry_fields e)))}
       = {Fin 1}"
proof -
  have k: "map fst three_devices = [''1'', ''2'', ''3'']"
    by (simp add: three_devices_def FALLBACK_RAW_def)
  have ex: "map it_id (items js_dec three_devices (idSet [Fin 1, Fin 3, Fin 4])) = [Fin 1, Fin 3]"
    by (simp add: items_def three_devices_def idSet_def FALLBACK_RAW_def fallback_device_def
      List.map_filter_def item_of_def entry_fields_def js_dec_def Number_dec_def digit_val_def
      Number_v_def isFinite_def mapStatus_def sort_by_id_def minus_sign_def Let_def)
  have "it_id ` set (items js_dec three_devices (idSet [Fin 1, Fin 3, Fin 4])) =
        set (map it_id (items js_dec three_devices (idSet [Fin 1, Fin 3, Fin 4])))"
    by simp
  also have "\<dots> = {Fin 1, Fin 3}" unfolding ex by simp
  finally have l: "it_id ` set (items js_dec three_devices (idSet [Fin 1, Fin 3, Fin 4])) =
                     {Fin 1, Fin 3}" .
  have fin: "\<forall>kd \<in> set three_devices.
               isFinite (Number_v js_dec (rd_lat (entry_fields (snd kd))))
             \<and> isFinite (Number_v js_dec (rd_lng (entry_fields (snd kd))))"
    by (simp add: three_devices_def FALLBACK_RAW_def fallback_device_def entry_fields_def
        js_dec_def Number_dec_def digit_val_def Number_v_def isFinite_def)
  have k2: "map fst no_position = [''1'', ''2'', ''3'']"
    by (simp add: no_position_def three_devices_def FALLBACK_RAW_def)
  have ex2: "map it_id (items js_dec no_position (idSet [Fin 1, Fin 3, Fin 4])) = [Fin 1]"
    by (simp add: items_def no_position_def three_devices_def idSet_def FALLBACK_RAW_def
      fallback_device_def List.map_filter_def item_of_def entry_fields_def js_dec_def
      Number_dec_def digit_val_def Number_v_def isFinite_def mapStatus_def sort_by_id_def
      minus_sign_def Let_def)
  have "it_id ` set (items js_dec no_position (idSet [Fin 1, Fin 3, Fin 4])) =
        set (map it_id (items js_dec no_position (idSet [Fin 1, Fin 3, Fin 4])))"
    by simp
  also have "\<dots> = {Fin 1}" unfolding ex2 by simp
  finally have l2: "it_id ` set (items js_dec no_position (idSet [Fin 1, Fin 3, Fin 4])) =
                      {Fin 1}" .
  from visible_items [of js_dec three_devices "[Fin 1, Fin 3, Fin 4]"] fin
  have b: "it_id ` set (items js_dec three_devices (idSet [Fin 1, Fin 3, Fin 4])) =
             StringToNumber js_dec ` fst ` set three_devices \<inter> set [Fin 1, Fin 3, Fin 4]"
    by blast
  have c: "StringToNumber js_dec ` fst ` set three_devices \<inter> set [Fin 1, Fin 3, Fin 4]
             = {Fin 1, Fin 3}"
    unfolding b [symmetric] by (rule l)
  from visible_items [of js_dec no_position "[Fin 1, Fin 3, Fin 4]"]
  have a: "it_id ` set (items js_dec no_position (idSet [Fin 1, Fin 3, Fin 4])) =
     {StringToNumber js_dec k | k e. (k, e) \<in> set no_position
        \<and> StringToNumber js_dec k \<in> set [Fin 1, Fin 3, Fin 4]
        \<and> isFinite (Number_v js_dec (rd_lat (entry_fields e)))
        \<and> isFinite (Number_v js_dec (rd_lng (entry_fields e)))}"
    by (rule conjunct1)
  have d: "{StringToNumber js_dec k | k e. (k, e) \<in> set no_position
        \<and> StringToNumber js_dec k \<in> set [Fin 1, Fin 3, Fin 4]
        \<and> isFinite (Number_v js_dec (rd_lat (entry_fields e)))
        \<and> isFinite (Number_v js_dec (rd_lng (entry_fields e)))}
       = {Fin 1}"
    unfolding a [symmetric] by (rule l2)
  show ?thesis by (intro conjI k l c k2 ex2 d)
qed

subsection \<open>The registry of the examples\<close>

lemma live_registry:
  "rawMap live_state = [(''7'', Device device7), (''9'', Primitive JNull)]"
  "clientRef live_state" "didConnect live_state" "alive live_state" "ended live_state = []"
  "alertedIds live_state = {}"
  by (simp_all add: live_state_def live_trace_def live_table_def opened_def mount_def
      initial_state_def step_def on_connect_def on_message_def startsWith_def
      as_RawDeviceMap_def own_entries_def own_keys_def array_index_small lookup_last_def
      List.map_filter_def as_raw_entry_def as_RawDevice_def js_prop_def device7_def)

subsection \<open>Alerts\<close>

lemma topic_Notify:
  "\<not> startsWith ''Notify'' ''Response/''" "toLowerCase ''Notify'' = ''notify''"
  by code_simp+

lemma on_message_alert:
  assumes cmd: "js_prop msg ''cmd'' = Some (JStr ''alert'')"
    and num: "Number_v js (nullish (js_prop msg ''id'') (js_prop msg ''idx'')) = Fin q"
    and ro: "js_prop msg ''recent_obj'' = Some (JArr [a, b, c])"
  shows "on_message js now ''Notify'' (Some msg) s =
           (s\<lparr>rawMap := set_recent (NumberToString js (Fin q))
                             (ToString js a, ToString js b, ToString js c) (rawMap s),
               alertedIds := insert (Fin q) (alertedIds s)\<rparr>,
            [Console ''payload'',
             Post_save_alert (JObj [(''cmd'', JStr ''alert''), (''id'', JNum (Fin q)),
                (''recent_obj'', JArr [JStr (ToString js a), JStr (ToString js b),
                                       JStr (ToString js c)])]),
             Toast_intrusion (toLocaleTimeString now) (ToString js b)])"
proof -
  have obj: "\<not> falsy (Some msg)"
    using cmd by (cases msg) (simp_all add: js_prop_def falsy_def)
  have arr: "recentArr_of js (js_prop msg ''recent_obj'') =
               Some (ToString js a, ToString js b, ToString js c)"
    by (simp add: ro recentArr_of_def)
  show ?thesis
    by (simp add: on_message_def topic_Notify obj cmd num arr isFinite_def recent_json_def
        Let_def)
qed

lemma map_of_set_entry: "map_of (set_entry k v kvs) = (map_of kvs)(k \<mapsto> v)"
  by (induction kvs) (auto simp: fun_eq_iff)

lemma map_fst_set_entry:
  "map_of kvs k = Some w \<Longrightarrow> map fst (set_entry k v kvs) = map fst kvs"
  by (induction kvs) (auto split: if_splits)

lemma set_recent_keys: "map fst (set_recent key r prev) = map fst prev"
  by (auto simp: set_recent_def map_fst_set_entry split: option.splits raw_entry.splits)

lemma set_recent_other: "k \<noteq> key \<Longrightarrow> map_of (set_recent key r prev) k = map_of prev k"
  by (auto simp: set_recent_def map_of_set_entry split: option.splits raw_entry.splits)

lemma set_recent_device:
  "map_of prev key = Some (Device cur) \<Longrightarrow>
   map_of (set_recent key r prev) key
     = Some (Device (cur\<lparr>rd_recent_obj := Some (recent_json r)\<rparr>))"
  by (simp add: set_recent_def map_of_set_entry)

lemma set_recent_truthy:
  "map_of prev key = Some (Primitive v) \<Longrightarrow> \<not> falsy (Some v) \<Longrightarrow>
   map_of (set_recent key r prev) key
     = Some (Device (no_fields\<lparr>rd_recent_obj := Some (recent_json r)\<rparr>))"
  by (simp add: set_recent_def map_of_set_entry)

lemma set_recent_skip:
  "map_of prev key = None \<or> (\<exists>v. map_of prev key = Some (Primitive v) \<and> falsy (Some v)) \<Longrightarrow>
   set_recent key r prev = prev"
  by (auto simp: set_recent_def)

text \<open>
  C1. Take an alert notification whose id (the member \<open>id\<close>, or \<open>idx\<close> when \<open>id\<close>
  is absent or \<open>null\<close>) is a value that \<open>Number\<close> converts to a finite number, and
  whose \<open>recent_obj\<close> is a tuple of three values that \<open>String\<close> converts. However
  the request to the gateway ends (any status, or a network error), after the handler and
  the request's callbacks: the id has been added to the alerted set; the handler has issued
  the request and raised the notification toast; and the registry has had its update. The
  registry keeps its keys and every entry under another key; the entry of the named device
  is the old record with the tuple as its \<open>recent_obj\<close>; a truthy entry that is no
  object becomes a record with the tuple only; and the registry is unchanged when the
  device is not in it or its entry is falsy.
\<close>

theorem alert_survives_gateway_failure:
  assumes cmd: "js_prop msg ''cmd'' = Some (JStr ''alert'')"
    and idv: "nullish (js_prop msg ''id'') (js_prop msg ''idx'') = Some v" "converts v"
    and num: "Number_v js (Some v) = Fin q"
    and ro: "js_prop msg ''recent_obj'' = Some (JArr [a, b, c])"
    and tuple: "converts a" "converts b" "converts c"
    and s': "s' = fst (on_fetch_settled outcome (fst (on_message js now ''Notify'' (Some msg) s)))"
    and key: "key = NumberToString js (Fin q)"
    and r: "r = JArr [JStr (ToString js a), JStr (ToString js b), JStr (ToString js c)]"
  shows "alertedIds s' = insert (Fin q) (alertedIds s)
       \<and> Toast_intrusion (toLocaleTimeString now) (ToString js b)
           \<in> set (snd (on_message js now ''Notify'' (Some msg) s))
       \<and> Post_save_alert (JObj [(''cmd'', JStr ''alert''), (''id'', JNum (Fin q)),
                                 (''recent_obj'', r)])
           \<in> set (snd (on_message js now ''Notify'' (Some msg) s))
       \<and> map fst (rawMap s') = map fst (rawMap s)
       \<and> (\<forall>k. k \<noteq> key \<longrightarrow> map_of (rawMap s') k = map_of (rawMap s) k)
       \<and> (\<forall>cur. map_of (rawMap s) key = Some (Device cur) \<longrightarrow>
             map_of (rawMap s') key = Some (Device (cur\<lparr>rd_recent_obj := Some r\<rparr>)))
       \<and> (\<forall>w. map_of (rawMap s) key = Some (Primitive w) \<and> \<not> falsy (Some w) \<longrightarrow>
             map_of (rawMap s') key = Some (Device (no_fields\<lparr>rd_recent_obj := Some r\<rparr>)))
       \<and> (map_of (rawMap s) key = None
            \<or> (\<exists>w. map_of (rawMap s) key = Some (Primitive w) \<and> falsy (Some w))
          \<longrightarrow> rawMap s' = rawMap s)
       \<and> connected s' = connected s \<and> currentId s' = currentId s"
proof -
  let ?t = "(ToString js a, ToString js b, ToString js c)"
  have num': "Number_v js (nullish (js_prop msg ''id'') (js_prop msg ''idx'')) = Fin q"
    using idv(1) num by simp
  note h = on_message_alert [OF cmd num' ro, of now s]
  have rj: "recent_json ?t = r" by (simp add: recent_json_def r)
  have st: "rawMap s' = set_recent key ?t (rawMap s)"
    "alertedIds s' = insert (Fin q) (alertedIds s)"
    "connected s' = connected s" "currentId s' = currentId s"
    unfolding s' h key by (cases outcome; simp add: on_fetch_settled_def)+
  have out: "snd (on_message js now ''Notify'' (Some msg) s) =
           [Console ''payload'',
            Post_save_alert (JObj [(''cmd'', JStr ''alert''), (''id'', JNum (Fin q)),
                                   (''recent_obj'', r)]),
            Toast_intrusion (toLocaleTimeString now) (ToString js b)]"
    unfolding h r by simp
  show ?thesis
    unfolding st out
    using set_recent_keys [of key ?t "rawMap s"] set_recent_other [of _ key ?t "rawMap s"]
      set_recent_device [of "rawMap s" key _ ?t] set_recent_truthy [of "rawMap s" key _ ?t]
      set_recent_skip [of "rawMap s" key ?t]
    unfolding rj by simp
qed

theorem alert_survives_gateway_failure_witness:
  "js_prop alert7 ''cmd'' = Some (JStr ''alert'')
   \<and> nullish (js_prop alert7 ''id'') (js_prop alert7 ''idx'') = Some (JStr ''7'')
   \<and> Number_v js_dec (Some (JStr ''7'')) = Fin 7
   \<and> js_prop alert7 ''recent_obj'' =
       Some (JArr [JStr ''2025-05-01T23:21:52'', JStr ''hog'', JStr ''url''])
   \<and> map_of (rawMap live_state) ''7'' = Some (Device device7)
   \<and> alertedIds (fst (on_fetch_settled (Http_status 500)
        (fst (on_message js_dec noon ''Notify'' (Some alert7) live_state)))) = {Fin 7}
   \<and> Toast_intrusion ''12:00 PM'' ''hog''
       \<in> set (snd (on_message js_dec noon ''Notify'' (Some alert7) live_state))
   \<and> map fst (rawMap (fst (on_fetch_settled (Http_status 500)
        (fst (on_message js_dec noon ''Notify'' (Some alert7) live_state))))) = [''7'', ''9'']
   \<and> map_of (rawMap (fst (on_fetch_settled (Http_status 500)
        (fst (on_message js_dec noon ''Notify'' (Some alert7) live_state))))) ''7'' =
       Some (Device (device7\<lparr>rd_recent_obj :=
         Some (JArr [JStr ''2025-05-01T23:21:52'', JStr ''hog'', JStr ''url''])\<rparr>))
   \<and> map_of (rawMap live_state) ''9'' = Some (Primitive JNull)
   \<and> rawMap (fst (on_fetch_settled Network_error
        (fst (on_message js_dec noon ''Notify'' (Some alert9) live_state)))) = rawMap live_state
   \<and> alertedIds (fst (on_fetch_settled Network_error
        (fst (on_message js_dec noon ''Notify'' (Some alert9) live_state)))) = {Fin 9}"
proof -
  have cmd: "js_prop alert7 ''cmd'' = Some (JStr ''alert'')"
    by (simp add: alert7_def js_prop_def lookup_last_def)
  have idv: "nullish (js_prop alert7 ''id'') (js_prop alert7 ''idx'') = Some (JStr ''7'')"
    by (simp add: alert7_def js_prop_def lookup_last_def nullish_def)
  have num: "Number_v js_dec (Some (JStr ''7'')) = Fin 7"
    by (simp add: Number_v_def Number_dec_small)
  have ro: "js_prop alert7 ''recent_obj'' =
       Some (JArr [JStr ''2025-05-01T23:21:52'', JStr ''hog'', JStr ''url''])"
    by (simp add: alert7_def js_prop_def lookup_last_def)
  have e7: "map_of (rawMap live_state) ''7'' = Some (Device device7)"
    by (simp add: live_registry)
  note t7 = alert_survives_gateway_failure [OF cmd idv _ num ro _ _ _ refl refl refl,
      of "Http_status 500" noon live_state]
  have cmd9: "js_prop alert9 ''cmd'' = Some (JStr ''alert'')"
    by (simp add: alert9_def js_prop_def lookup_last_def)
  have idv9: "nullish (js_prop alert9 ''id'') (js_prop alert9 ''idx'') = Some (JNum (Fin 9))"
    by (simp add: alert9_def js_prop_def lookup_last_def nullish_def)
  have num9: "Number_v js_dec (Some (JNum (Fin 9))) = Fin 9"
    by (simp add: Number_v_def)
  have ro9: "js_prop alert9 ''recent_obj'' =
       Some (JArr [JStr ''2025-05-01T23:21:52'', JStr ''hog'', JStr ''url''])"
    by (simp add: alert9_def js_prop_def lookup_last_def)
  have e9: "map_of (rawMap live_state) ''9'' = Some (Primitive JNull)"
    by (simp add: live_registry)
  note t9 = alert_survives_gateway_failure [OF cmd9 idv9 _ num9 ro9 _ _ _ refl refl refl,
      of Network_error noon live_state]
  from t7 e7 have a7:
    "alertedIds (fst (on_fetch_settled (Http_status 500)
        (fst (on_message js_dec noon ''Notify'' (Some alert7) live_state)))) = {Fin 7}"
    "Toast_intrusion ''12:00 PM'' ''hog''
       \<in> set (snd (on_message js_dec noon ''Notify'' (Some alert7) live_state))"
    "map fst (rawMap (fst (on_fetch_settled (Http_status 500)
        (fst (on_message js_dec noon ''Notify'' (Some alert7) live_state))))) = [''7'', ''9'']"
    "map_of (rawMap (fst (on_fetch_settled (Http_status 500)
        (fst (on_message js_dec noon ''Notify'' (Some alert7) live_state))))) ''7'' =
       Some (Device (device7\<lparr>rd_recent_obj :=
         Some (JArr [JStr ''2025-05-01T23:21:52'', JStr ''hog'', JStr ''url''])\<rparr>))"
    by (simp_all add: live_registry String_dec_small noon_def)
  from t9 e9 have a9:
    "rawMap (fst (on_fetch_settled Network_error
        (fst (on_message js_dec noon ''Notify'' (Some alert9) live_state)))) = rawMap live_state"
    "alertedIds (fst (on_fetch_settled Network_error
        (fst (on_message js_dec noon ''Notify'' (Some alert9) live_state)))) = {Fin 9}"
    by (simp_all add: live_registry String_dec_small falsy_def)
  show ?thesis by (intro conjI cmd idv num ro e7 a7 e9 a9)
qed



subsection \<open>The fallback dataset\<close>

lemma run_append: "run js (es @ fs) s = run js fs (run js es s)"
  by (induction es arbitrary: s) simp_all







lemma on_message_session:
  "didConnect (fst (on_message js now topic payload s)) = didConnect s
   \<and> rawMap_seen (fst (on_message js now topic payload s)) = rawMap_seen s
   \<and> clientRef (fst (on_message js now topic payload s)) = clientRef s
   \<and> fallbackTimer (fst (on_message js now topic payload s)) = fallbackTimer s
   \<and> ended (fst (on_message js now topic payload s)) = ended s
   \<and> alive (fst (on_message js now topic payload s)) = alive s"
  by (simp add: on_message_def Let_def split: option.splits)

lemma live_inv_step:
  "live_inv s \<Longrightarrow> (\<And>ids. e \<noteq> Rerun ids) \<Longrightarrow> live_inv (fst (step js e s))"
  by (cases e)
     (auto simp: live_inv_def step_def on_message_session on_connect_def on_fetch_settled_def
        on_error_def on_close_def close_handler_def on_fallback_timer_def unmount_def
        cleanup_def marker_click_def map_click_def
        split: fetch_outcome.splits prod.splits)

lemma live_inv_run:
  "live_inv s \<Longrightarrow> \<forall>e \<in> set es. \<forall>ids. e \<noteq> Rerun ids \<Longrightarrow> live_inv (run js es s)"
  by (induction es arbitrary: s) (simp_all add: live_inv_step)

lemma live_inv_opened: "live_inv (opened ids)"
  by (simp add: live_inv_def opened_def mount_def initial_state_def)

lemma step_keeps_registry:
  assumes "\<And>now topic payload. e \<noteq> Mqtt_message now topic payload"
    and "e \<noteq> Fallback_timeout" "e \<noteq> Rerun []" "rawMap s \<noteq> []"
  shows "rawMap (fst (step js e s)) = rawMap s"
  using assms
  by (cases e)
     (auto simp: step_def on_connect_def on_fetch_settled_def on_error_def on_close_def
        on_close_ended_def close_handler_def unmount_def rerun_def cleanup_def mount_def
        marker_click_def map_click_def
        split: fetch_outcome.splits prod.splits)

text \<open>
  C7 does not hold as stated. The effect that opens the session runs again when the user's
  list changes; the new session has a fallback timer of its own, and its callback tests
  only that this session has not connected. With the broker's table in the registry, a
  re-run whose session does not connect in time ends with the fallback dataset in the
  place of the table.
\<close>

theorem fallback_replaces_live_registry_counterexample:
  "rawMap (run js_dec live_trace (opened [Fin 7])) =
     [(''7'', Device device7), (''9'', Primitive JNull)]
   \<and> rawMap (run js_dec (live_trace @ [Rerun [Fin 7, Fin 8], Mqtt_error, Close])
               (opened [Fin 7])) =
     [(''7'', Device device7), (''9'', Primitive JNull)]
   \<and> rawMap (run js_dec (live_trace @ [Rerun [Fin 7, Fin 8], Mqtt_error, Close,
                                       Fallback_timeout])
               (opened [Fin 7])) = FALLBACK_RAW"
proof -
  have l: "run js_dec (live_trace @ es) (opened [Fin 7]) = run js_dec es live_state" for es
    by (simp add: run_append live_state_def)
  have a: "rawMap (run js_dec live_trace (opened [Fin 7])) =
     [(''7'', Device device7), (''9'', Primitive JNull)]"
    using live_registry(1) by (simp add: live_state_def)
  have b: "rawMap (run js_dec [Rerun [Fin 7, Fin 8], Mqtt_error, Close] live_state) =
     [(''7'', Device device7), (''9'', Primitive JNull)]"
    by (simp add: step_def rerun_def cleanup_def mount_def on_error_def on_close_def
        close_handler_def live_registry)
  have c: "rawMap (run js_dec [Rerun [Fin 7, Fin 8], Mqtt_error, Close, Fallback_timeout]
                     live_state) = FALLBACK_RAW"
    by (simp add: step_def rerun_def cleanup_def mount_def on_error_def on_close_def
        close_handler_def on_fallback_timer_def live_registry)
  show ?thesis unfolding l by (intro conjI a b c)
qed

text \<open>
  C7, amended. An error event leaves the registry as it is. A close event, of the client
  that the view holds or of a client that was ended, puts \<open>FALLBACK_RAW\<close> in the registry
  exactly when that client has never connected, the registry was empty when its session
  was opened and the registry is empty now; otherwise it leaves the registry as it is. So
  in every state an error or a close leaves a registry that is not empty as it is, and so
  does every event other than a message of the broker, the fallback timer and a re-run
  with an empty list (which empties the registry). As long as the effect has not run
  again, the fallback timer leaves a registry that is not empty as it is, too. What the
  timer of a session opened by a re-run does is not stated.
\<close>

theorem fallback_only_into_empty_registry:
  "rawMap (fst (step js Mqtt_error s)) = rawMap s
   \<and> rawMap (fst (step js Close s)) =
       (if clientRef s \<and> \<not> didConnect s \<and> rawMap_seen s = [] \<and> rawMap s = []
        then FALLBACK_RAW else rawMap s)
   \<and> rawMap (fst (step js (Close_ended i) s)) =
       (if alive s \<and> i < length (ended s) \<and> \<not> fst (ended s ! i) \<and> snd (ended s ! i) = []
           \<and> rawMap s = []
        then FALLBACK_RAW else rawMap s)
   \<and> (rawMap s \<noteq> [] \<and> (\<forall>now topic payload. e \<noteq> Mqtt_message now topic payload)
        \<and> e \<noteq> Fallback_timeout \<and> e \<noteq> Rerun []
      \<longrightarrow> rawMap (fst (step js e s)) = rawMap s)
   \<and> rawMap (fst (step js (Rerun []) s)) = (if alive s then [] else rawMap s)
   \<and> ((\<forall>e' \<in> set es. \<forall>ids'. e' \<noteq> Rerun ids') \<and> rawMap (run js es (opened ids)) \<noteq> []
      \<longrightarrow> rawMap (fst (step js Fallback_timeout (run js es (opened ids))))
            = rawMap (run js es (opened ids)))"
proof -
  have err: "rawMap (fst (step js Mqtt_error s)) = rawMap s"
    by (simp add: step_def on_error_def)
  have close: "rawMap (fst (step js Close s)) =
       (if clientRef s \<and> \<not> didConnect s \<and> rawMap_seen s = [] \<and> rawMap s = []
        then FALLBACK_RAW else rawMap s)"
    by (simp add: step_def on_close_def close_handler_def)
  have old: "rawMap (fst (step js (Close_ended i) s)) =
       (if alive s \<and> i < length (ended s) \<and> \<not> fst (ended s ! i) \<and> snd (ended s ! i) = []
           \<and> rawMap s = []
        then FALLBACK_RAW else rawMap s)"
    by (simp add: step_def on_close_ended_def close_handler_def split: prod.splits)
  have other: "rawMap s \<noteq> [] \<and> (\<forall>now topic payload. e \<noteq> Mqtt_message now topic payload)
        \<and> e \<noteq> Fallback_timeout \<and> e \<noteq> Rerun []
      \<longrightarrow> rawMap (fst (step js e s)) = rawMap s"
    using step_keeps_registry [of e s js] by blast
  have empty: "rawMap (fst (step js (Rerun []) s)) = (if alive s then [] else rawMap s)"
    by (simp add: step_def rerun_def cleanup_def mount_def split: prod.splits)
  have timer: "(\<forall>e' \<in> set es. \<forall>ids'. e' \<noteq> Rerun ids') \<and> rawMap (run js es (opened ids)) \<noteq> []
      \<longrightarrow> rawMap (fst (step js Fallback_timeout (run js es (opened ids))))
            = rawMap (run js es (opened ids))"
  proof
    assume h: "(\<forall>e' \<in> set es. \<forall>ids'. e' \<noteq> Rerun ids') \<and> rawMap (run js es (opened ids)) \<noteq> []"
    then have "live_inv (run js es (opened ids))"
      by (intro live_inv_run live_inv_opened) blast
    with h show "rawMap (fst (step js Fallback_timeout (run js es (opened ids))))
            = rawMap (run js es (opened ids))"
      by (auto simp: live_inv_def step_def on_fallback_timer_def)
  qed
  from err close old other empty timer show ?thesis by blast
qed

theorem fallback_only_into_empty_registry_witness:
  "rawMap (opened [Fin 7]) = []
   \<and> rawMap (fst (step js_dec Close (opened [Fin 7]))) = FALLBACK_RAW
   \<and> rawMap live_state = [(''7'', Device device7), (''9'', Primitive JNull)]
   \<and> rawMap (fst (step js_dec Close live_state)) = rawMap live_state
   \<and> rawMap (fst (step js_dec Mqtt_error live_state)) = rawMap live_state
   \<and> rawMap (fst (step js_dec Fallback_timeout live_state)) = rawMap live_state
   \<and> \<not> didConnect (fst (step js_dec (Rerun [Fin 7, Fin 8]) live_state))
   \<and> rawMap (fst (step js_dec Close (fst (step js_dec (Rerun [Fin 7, Fin 8]) live_state)))) =
       rawMap live_state
   \<and> rawMap (fst (step js_dec (Close_ended 0)
                    (fst (step js_dec (Rerun [Fin 7, Fin 8]) (opened [Fin 7]))))) = FALLBACK_RAW"
proof -
  have s0: "clientRef (opened [Fin 7])" "\<not> didConnect (opened [Fin 7])"
    "rawMap_seen (opened [Fin 7]) = []" "rawMap (opened [Fin 7]) = []"
    by (simp_all add: opened_def mount_def initial_state_def)
  have c0: "rawMap (fst (step js_dec Close (opened [Fin 7]))) = FALLBACK_RAW"
    using fallback_only_into_empty_registry [of js_dec "opened [Fin 7]"] s0 by simp
  have ne: "rawMap live_state \<noteq> []" by (simp add: live_registry)
  have c1: "rawMap (fst (step js_dec Close live_state)) = rawMap live_state"
    "rawMap (fst (step js_dec Mqtt_error live_state)) = rawMap live_state"
    using fallback_only_into_empty_registry [of js_dec live_state] ne by simp_all
  have no_rerun: "\<forall>e' \<in> set live_trace. \<forall>ids'. e' \<noteq> Rerun ids'"
    by (simp add: live_trace_def)
  have t1: "rawMap (fst (step js_dec Fallback_timeout live_state)) = rawMap live_state"
    using fallback_only_into_empty_registry [of js_dec _ _ _ live_trace "[Fin 7]"]
      no_rerun ne
    unfolding live_state_def by blast
  let ?s2 = "fst (step js_dec (Rerun [Fin 7, Fin 8]) live_state)"
  have s2: "clientRef ?s2" "\<not> didConnect ?s2" "rawMap_seen ?s2 = rawMap live_state"
    "rawMap ?s2 = rawMap live_state"
    by (simp_all add: step_def rerun_def cleanup_def mount_def live_registry)
  have c2: "rawMap (fst (step js_dec Close ?s2)) = rawMap live_state"
    using fallback_only_into_empty_registry [of js_dec ?s2] s2 ne by simp
  let ?s3 = "fst (step js_dec (Rerun [Fin 7, Fin 8]) (opened [Fin 7]))"
  have s3: "alive ?s3" "ended ?s3 = [(False, [])]" "rawMap ?s3 = []"
    by (simp_all add: step_def rerun_def cleanup_def mount_def opened_def initial_state_def)
  have c3: "rawMap (fst (step js_dec (Close_ended 0) ?s3)) = FALLBACK_RAW"
    using fallback_only_into_empty_registry [of js_dec ?s3 0] s3 by simp
  show ?thesis
    by (intro conjI s0(4) c0 live_registry(1) c1 t1 s2(2) c2 c3)
qed

subsection \<open>Control messages\<close>

text \<open>
  C9 does not hold as stated: the guard of \<open>publishPTZ\<close> asks for a client and a
  selected id, not for a connection. After the fallback timer has fired (the client never
  connected, \<open>connected\<close> is false) and the user has selected device 1, a press
  publishes a control message.
\<close>

theorem ptz_published_counterexample:
  "fallback_selected = fst (step js_dec (Marker_click (Fin 1))
                         (fst (step js_dec Fallback_timeout (opened [Fin 1]))))
   \<and> map it_id (items js_dec (rawMap (fst (step js_dec Fallback_timeout (opened [Fin 1]))))
                   (idSet [Fin 1])) = [Fin 1]
   \<and> connected fallback_selected = False
   \<and> didConnect fallback_selected = False
   \<and> publishPTZ js_dec noon Left Start fallback_selected =
       [Publish ''CONTROL/device/1''
          (JObj [(''user'', JStr ''AA-BB-CC-DD-EE-FF''), (''timestamp'', JStr ''12:00:05''),
                 (''commend'', JStr ''left''), (''id'', JNum (Fin 1))])]"
proof -
  have r: "fallback_selected = fst (step js_dec (Marker_click (Fin 1))
                         (fst (step js_dec Fallback_timeout (opened [Fin 1]))))"
    by (simp add: fallback_selected_def)
  have t: "rawMap (fst (step js_dec Fallback_timeout (opened [Fin 1]))) = FALLBACK_RAW"
    by (simp add: opened_def mount_def initial_state_def step_def on_fallback_timer_def)
  have v: "map it_id (items js_dec FALLBACK_RAW (idSet [Fin 1])) = [Fin 1]"
    by (simp add: items_def idSet_def FALLBACK_RAW_def fallback_device_def
      List.map_filter_def item_of_def entry_fields_def js_dec_def Number_dec_def digit_val_def
      Number_v_def isFinite_def mapStatus_def sort_by_id_def minus_sign_def Let_def)
  have c: "connected fallback_selected = False" "didConnect fallback_selected = False"
    "clientRef fallback_selected" "currentId fallback_selected = Some (Fin 1)"
    by (simp_all add: fallback_selected_def opened_def mount_def initial_state_def step_def
        on_fallback_timer_def marker_click_def)
  have p: "publishPTZ js_dec noon Left Start fallback_selected =
       [Publish ''CONTROL/device/1''
          (JObj [(''user'', JStr ''AA-BB-CC-DD-EE-FF''), (''timestamp'', JStr ''12:00:05''),
                 (''commend'', JStr ''left''), (''id'', JNum (Fin 1))])]"
    using noon_clock by (simp add: publishPTZ_def c String_dec_small USER_UUID_def)
  from r t v c p show ?thesis by simp
qed

text \<open>
  C9, amended. A control message is published only when the view holds a broker client and
  a device with an id other than 0 is selected; then every press publishes exactly one
  message, with the command of that press, and the press changes no state (nothing is
  awaited, nothing is merged with another press).
\<close>

theorem ptz_publish:
  "(publishPTZ js now dir state s \<noteq> [] \<longrightarrow>
      clientRef s \<and> (\<exists>i. currentId s = Some i \<and> i \<noteq> Fin 0 \<and> i \<noteq> NaN))
   \<and> (clientRef s \<and> currentId s = Some i \<and> i \<noteq> Fin 0 \<and> i \<noteq> NaN \<longrightarrow>
      publishPTZ js now dir state s =
        [Publish (''CONTROL/device/'' @ NumberToString js i)
           (JObj [(''user'', JStr USER_UUID), (''timestamp'', JStr (nowHHMMSS js now)),
                  (''commend'', JStr (if state = Stop then ''stop''
                       else if dir = Left then ''left'' else ''right'')),
                  (''id'', JNum i)])])
   \<and> step js (PTZ now dir state) s = (s, publishPTZ js now dir state s)"
  by (cases dir) (auto simp: publishPTZ_def step_def Let_def split: option.splits)

theorem ptz_publish_witness:
  "clientRef fallback_selected \<and> currentId fallback_selected = Some (Fin 1)
   \<and> publishPTZ js_dec noon Right Stop fallback_selected =
       [Publish ''CONTROL/device/1''
          (JObj [(''user'', JStr ''AA-BB-CC-DD-EE-FF''), (''timestamp'', JStr ''12:00:05''),
                 (''commend'', JStr ''stop''), (''id'', JNum (Fin 1))])]
   \<and> step js_dec (PTZ noon Right Stop) fallback_selected =
       (fallback_selected, publishPTZ js_dec noon Right Stop fallback_selected)"
proof -
  have c: "clientRef fallback_selected" "currentId fallback_selected = Some (Fin 1)"
    by (simp_all add: fallback_selected_def opened_def mount_def initial_state_def step_def
        on_fallback_timer_def marker_click_def)
  from c show ?thesis
    using ptz_publish [of js_dec noon Right Stop fallback_selected "Fin 1"]
    by (simp add: String_dec_small noon_clock USER_UUID_def)
qed

end
